theory Spec2Isabelle
  imports Complex_Main "HOL-Library.Word" "HOL-Library.AList"
begin

section \<open>Python floats\<close>

text \<open>
  The cost arithmetic of \<^verbatim>\<open>gemini_image_generator.py\<close> and the clock of
  \<^verbatim>\<open>web_api.py\<close> run on Python floats, that is IEEE 754 binary64 values. A finite
  binary64 value is a rational number, so a float is modelled by the rational it denotes,
  and every arithmetic operation computes the exact rational result and rounds it to the
  nearest value with a 53 bit significand, ties to the even significand (\<open>fl\<close>).

  The exponent is not bounded: overflow to infinity and the subnormal range are not
  modelled. The prices are around \<open>10\<^sup>-\<^sup>3\<close>, a prompt has fewer than \<open>2\<^sup>6\<^sup>3\<close> characters and
  clock values are seconds since 1970, so every value the program computes lies far inside
  the normal range, where \<open>fl\<close> is the rounding of the hardware.
\<close>

type_synonym pyfloat = rat

definition round_half_even :: "rat \<Rightarrow> int" where
  "round_half_even q =
     (let n = \<lfloor>q\<rfloor>; r = q - of_int n
      in if r < 1 / 2 then n
         else if 1 / 2 < r then n + 1
         else if even n then n else n + 1)"

text \<open>\<open>expo x\<close> is the binary exponent of a positive \<open>x\<close>: \<open>2\<^sup>e \<le> x < 2\<^sup>e\<^sup>+\<^sup>1\<close>.\<close>

function expo_up :: "rat \<Rightarrow> int" where
  "expo_up x = (if x < 2 then 0 else expo_up (x / 2) + 1)"
  by pat_completeness auto
termination
proof (relation "measure (\<lambda>x. nat \<lfloor>x\<rfloor>)")
  show "wf (measure (\<lambda>x::rat. nat \<lfloor>x\<rfloor>))" by simp
next
  fix x :: rat
  assume "\<not> x < 2"
  then have "2 \<le> x" by simp
  then have "x / 2 < of_int \<lfloor>x\<rfloor>" "0 < \<lfloor>x\<rfloor>" by linarith+
  then have "\<lfloor>x / 2\<rfloor> < \<lfloor>x\<rfloor>" "0 < \<lfloor>x\<rfloor>" by (simp_all add: floor_less_iff)
  then show "(x / 2, x) \<in> measure (\<lambda>x. nat \<lfloor>x\<rfloor>)" by simp
qed

function expo_down :: "rat \<Rightarrow> int" where
  "expo_down x = (if x \<le> 0 \<or> 1 \<le> x then 0 else expo_down (2 * x) - 1)"
  by pat_completeness auto
termination
proof (relation "measure (\<lambda>x. nat \<lfloor>1 / x\<rfloor>)")
  show "wf (measure (\<lambda>x::rat. nat \<lfloor>1 / x\<rfloor>))" by simp
next
  fix x :: rat
  assume "\<not> (x \<le> 0 \<or> 1 \<le> x)"
  then have x: "0 < x" "x < 1" by simp_all
  define y where "y = 1 / x"
  from x have "1 < y" by (simp add: y_def)
  then have "1 \<le> \<lfloor>y\<rfloor>" by (simp add: le_floor_iff)
  then have "y / 2 < of_int \<lfloor>y\<rfloor>" "0 < \<lfloor>y\<rfloor>" by linarith+
  then have "\<lfloor>y / 2\<rfloor> < \<lfloor>y\<rfloor>" "0 < \<lfloor>y\<rfloor>" by (simp_all add: floor_less_iff)
  moreover have "1 / (2 * x) = y / 2" by (simp add: y_def)
  ultimately show "(2 * x, x) \<in> measure (\<lambda>x. nat \<lfloor>1 / x\<rfloor>)"
    by (simp add: y_def mult.commute)
qed

declare expo_up.simps [simp del] expo_down.simps [simp del]

definition expo :: "rat \<Rightarrow> int" where
  "expo x = (if 1 \<le> x then expo_up x else expo_down x)"

definition fl :: "rat \<Rightarrow> pyfloat" where
  "fl x = (if x = 0 then 0
           else let u = 2 powi (expo \<bar>x\<bar> - 52)
                in sgn x * of_int (round_half_even (\<bar>x\<bar> / u)) * u)"

text \<open>
  Python's \<^verbatim>\<open>x + y\<close>, \<^verbatim>\<open>x - y\<close> and \<^verbatim>\<open>x * y\<close> on floats, and \<^verbatim>\<open>a / b\<close> on two ints (true
  division, correctly rounded). The only int division of the program divides by the
  literal 1000, so \<^verbatim>\<open>ZeroDivisionError\<close> has no branch here.
\<close>

definition float_add :: "pyfloat \<Rightarrow> pyfloat \<Rightarrow> pyfloat" where
  "float_add x y = fl (x + y)"

definition float_sub :: "pyfloat \<Rightarrow> pyfloat \<Rightarrow> pyfloat" where
  "float_sub x y = fl (x - y)"

definition float_mul :: "pyfloat \<Rightarrow> pyfloat \<Rightarrow> pyfloat" where
  "float_mul x y = fl (x * y)"

definition int_truediv :: "int \<Rightarrow> int \<Rightarrow> pyfloat" where
  "int_truediv a b = fl (of_int a / of_int b)"

section \<open>Exceptions\<close>

text \<open>
  The exceptions that leave a function of the program, each with the text \<^verbatim>\<open>str(e)\<close>
  gives. A \<^verbatim>\<open>KeyError\<close> carries the missing key, and its text is the \<^verbatim>\<open>repr\<close> of the key
  (written here for a key without quotes or escapes, as the model identifiers are).
\<close>

definition quoted :: "string \<Rightarrow> string" where
  "quoted s = [CHR 0x27] @ s @ [CHR 0x27]"

datatype exn =
    ValueError string
  | RuntimeError string
  | KeyError string
  | OSError string

fun exn_str :: "exn \<Rightarrow> string" where
  "exn_str (ValueError m) = m"
| "exn_str (RuntimeError m) = m"
| "exn_str (KeyError k) = quoted k"
| "exn_str (OSError m) = m"

section \<open>The model table and the cost estimate\<close>

record pricing =
  input_cost_per_1k_chars :: pyfloat
  output_cost_per_image :: pyfloat

record model_info =
  name :: string
  description :: string
  features :: "string list"
  model_status :: string
  pricing :: pricing

text \<open>
  \<^verbatim>\<open>AVAILABLE_MODELS\<close>: a dict literal with two entries, kept in its order. The float literals
  \<^verbatim>\<open>0.00025\<close> and \<^verbatim>\<open>0.002734375\<close> denote the binary64 values nearest to them.
\<close>

definition gemini_25_flash_image :: model_info where
  "gemini_25_flash_image =
     \<lparr>name = ''Gemini 2.5 Flash Image (Nano Banana)'',
      description = ''State-of-the-art image generation and editing model with superior capabilities'',
      features = [''Natural language editing'', ''Character consistency'', ''Image blending'',
                  ''1024px resolution''],
      model_status = ''Latest (Recommended)'',
      pricing = \<lparr>input_cost_per_1k_chars = fl (25 / 100000),
                 output_cost_per_image = fl (2734375 / 1000000000)\<rparr>\<rparr>"

definition gemini_20_flash_image :: model_info where
  "gemini_20_flash_image =
     \<lparr>name = ''Gemini 2.0 Flash Image'',
      description = ''Previous generation image model'',
      features = [''Basic image generation'', ''Text-to-image''],
      model_status = ''Deprecated (Sept 26, 2025)'',
      pricing = \<lparr>input_cost_per_1k_chars = fl (25 / 100000),
                 output_cost_per_image = fl (2734375 / 1000000000)\<rparr>\<rparr>"

definition AVAILABLE_MODELS :: "(string \<times> model_info) list" where
  "AVAILABLE_MODELS =
     [(''gemini-2.5-flash-image-preview'', gemini_25_flash_image),
      (''gemini-2.0-flash-preview-image-generation'', gemini_20_flash_image)]"

text \<open>
  The generator object: the credential its client was built with, \<^verbatim>\<open>self.model\<close> and
  \<^verbatim>\<open>self.total_cost\<close>. A \<open>char\<close> of a \<open>string\<close> stands for one character of a Python
  \<^verbatim>\<open>str\<close>, so \<open>length\<close> is \<^verbatim>\<open>len\<close>.
\<close>

record GeminiImageGenerator =
  client_api_key :: string
  model :: string
  total_cost :: pyfloat

record cost_info =
  input_text_cost :: pyfloat
  input_image_cost :: pyfloat
  output_image_cost :: pyfloat
  total_cost :: pyfloat
  input_chars :: nat

text \<open>
  \<^verbatim>\<open>calculate_cost\<close>. \<^verbatim>\<open>AVAILABLE_MODELS[self.model]\<close> raises \<^verbatim>\<open>KeyError\<close> for a model that
  is not in the table. The sum is evaluated left to right:
  \<^verbatim>\<open>(input_cost + output_cost) + input_image_cost\<close>.
\<close>

definition calculate_cost :: "GeminiImageGenerator \<Rightarrow> string \<Rightarrow> bool \<Rightarrow> exn + cost_info" where
  "calculate_cost self prompt has_input_image =
     (case map_of AVAILABLE_MODELS (model self) of
        None \<Rightarrow> Inl (KeyError (model self))
      | Some info \<Rightarrow>
          let pricing = pricing info;
              input_chars = length prompt;
              input_cost = float_mul (int_truediv (int input_chars) 1000)
                             (input_cost_per_1k_chars pricing);
              output_cost = output_cost_per_image pricing;
              input_image_cost = (if has_input_image then output_cost_per_image pricing else 0);
              total = float_add (float_add input_cost output_cost) input_image_cost
          in Inr \<lparr>input_text_cost = input_cost,
                  input_image_cost = input_image_cost,
                  output_image_cost = output_cost,
                  total_cost = total,
                  input_chars = input_chars\<rparr>)"

section \<open>The generation endpoint, its responses and the file system\<close>

type_synonym byte = "8 word"

text \<open>
  What the client library returns, with every field that the library declares optional
  as an option: a response has candidates, a candidate has a content, a content has
  parts, a part has a text or inline data (a blob with a MIME type and the data). The
  data of a blob is \<^verbatim>\<open>bytes\<close>; the source also provides for a \<^verbatim>\<open>str\<close> holding base64 text.
\<close>

datatype blob_data = Bytes "byte list" | Str string

record blob =
  mime_type :: "string option"
  data :: "blob_data option"

record part =
  part_text :: "string option"
  inline_data :: "blob option"

record content =
  parts :: "part list option"

record candidate =
  content :: "content option"

record response =
  candidates :: "candidate list option"

text \<open>What is sent: the prompt, preceded by the input image when there is one.\<close>

datatype content_item = Prompt string | ImagePart "byte list" string

text \<open>
  A call of \<^verbatim>\<open>client.models.generate_content\<close> raises (with the text of the
  exception) or returns a response, possibly \<^verbatim>\<open>None\<close>.
\<close>

datatype api_result = Raises string | Returns "response option"

text \<open>
  The collaborators outside the repository: the hosted endpoint, \<^verbatim>\<open>base64.b64decode\<close>
  (\<open>None\<close> when it raises), the format that \<^verbatim>\<open>PIL.Image.open\<close> detects in the bytes of a
  file (\<open>None\<close> when it raises or finds none), and the environment variable
  \<^verbatim>\<open>GEMINI_API_KEY\<close>.
\<close>

record env =
  generate_content :: "string \<Rightarrow> content_item list \<Rightarrow> api_result"
  b64decode :: "string \<Rightarrow> byte list option"
  image_format :: "byte list \<Rightarrow> string option"
  GEMINI_API_KEY :: "string option"

text \<open>
  The world the program acts on: the files by path, the paths on which opening a file
  raises \<^verbatim>\<open>OSError\<close> and those on which removing one does (each with the text of the
  exception), and the requests sent to the endpoint so far, each with the model
  identifier.
\<close>

record world =
  files :: "string \<rightharpoonup> byte list"
  open_fails :: "string \<rightharpoonup> string"
  remove_fails :: "string \<rightharpoonup> string"
  api_calls :: "(string \<times> content_item list) list"

definition path_exists :: "world \<Rightarrow> string \<Rightarrow> bool" where
  "path_exists w p = (files w p \<noteq> None)"

definition no_such_file :: "string \<Rightarrow> string" where
  "no_such_file p = ''[Errno 2] No such file or directory: '' @ quoted p"

definition open_write :: "world \<Rightarrow> string \<Rightarrow> byte list \<Rightarrow> string + world" where
  "open_write w p bs =
     (case open_fails w p of
        Some msg \<Rightarrow> Inl msg
      | None \<Rightarrow> Inr (w\<lparr>files := (files w)(p \<mapsto> bs)\<rparr>))"

definition open_read :: "world \<Rightarrow> string \<Rightarrow> string + byte list" where
  "open_read w p =
     (case open_fails w p of
        Some msg \<Rightarrow> Inl msg
      | None \<Rightarrow> (case files w p of None \<Rightarrow> Inl (no_such_file p) | Some bs \<Rightarrow> Inr bs))"

definition os_remove :: "world \<Rightarrow> string \<Rightarrow> string + world" where
  "os_remove w p =
     (case remove_fails w p of
        Some msg \<Rightarrow> Inl msg
      | None \<Rightarrow>
          (case files w p of
             None \<Rightarrow> Inl (no_such_file p)
           | Some bs \<Rightarrow> Inr (w\<lparr>files := (files w)(p := None)\<rparr>)))"

definition startswith :: "string \<Rightarrow> string \<Rightarrow> bool" where
  "startswith s p = (take (length p) s = p)"

section \<open>The generator\<close>

text \<open>
  \<^verbatim>\<open>__init__\<close>: the key comes from the argument or else from the environment; a missing
  key and an unknown model raise \<^verbatim>\<open>ValueError\<close>. The session total starts at \<^verbatim>\<open>0.0\<close>.
  The construction of the client, \<^verbatim>\<open>genai.Client(api_key=api_key)\<close>, is taken to succeed.
\<close>

definition py_list_repr :: "string list \<Rightarrow> string" where
  "py_list_repr xs =
     ''['' @ concat (map (\<lambda>(i, x). (if i = 0 then [] else '', '') @ quoted x)
                      (enumerate 0 xs)) @ '']''"

definition GeminiImageGenerator_init ::
  "env \<Rightarrow> string option \<Rightarrow> string \<Rightarrow> exn + GeminiImageGenerator" where
  "GeminiImageGenerator_init e api_key model_id =
     (let api_key = (if api_key = None \<or> api_key = Some [] then GEMINI_API_KEY e else api_key)
      in if api_key = None \<or> api_key = Some []
         then Inl (ValueError
           ''API key is required. Set GEMINI_API_KEY environment variable or pass api_key parameter'')
         else if model_id \<notin> set (map fst AVAILABLE_MODELS)
         then Inl (ValueError (''Model '' @ quoted model_id
                 @ '' not supported. Available models: ''
                 @ py_list_repr (map fst AVAILABLE_MODELS)))
         else Inr \<lparr>client_api_key = the api_key, model = model_id, total_cost = 0\<rparr>)"

text \<open>
  \<^verbatim>\<open>load_image\<close>, which is only called inside the \<^verbatim>\<open>try\<close> of
  \<^verbatim>\<open>generate_image_with_input\<close>: the result is the text of the exception or the bytes with
  the MIME type. A format outside the map, and a failed detection, give \<^verbatim>\<open>image/jpeg\<close>.
\<close>

definition format_map :: "(string \<times> string) list" where
  "format_map =
     [(''JPEG'', ''image/jpeg''), (''PNG'', ''image/png''), (''GIF'', ''image/gif''),
      (''BMP'', ''image/bmp''), (''WEBP'', ''image/webp'')]"

definition load_image :: "env \<Rightarrow> world \<Rightarrow> string \<Rightarrow> string + (byte list \<times> string)" where
  "load_image e w image_path =
     (if \<not> path_exists w image_path then Inl (''Image file not found: '' @ image_path)
      else case open_read w image_path of
             Inl msg \<Rightarrow> Inl msg
           | Inr bs \<Rightarrow>
               let mime =
                     (case image_format e bs of
                        None \<Rightarrow> ''image/jpeg''
                      | Some f \<Rightarrow> (case map_of format_map f of
                                    None \<Rightarrow> ''image/jpeg''
                                  | Some m \<Rightarrow> m))
               in Inr (bs, mime))"

text \<open>
  The two nested loops over the candidates and their parts, which both generation
  methods contain word for word. The scan stops at the first part whose inline data has
  a MIME type starting with \<^verbatim>\<open>image/\<close> and a length above 1000, and whose data is bytes or
  decodes from base64; a part that fails to decode is skipped (\<^verbatim>\<open>continue\<close>). Reading a
  field of \<^verbatim>\<open>None\<close> raises, with the text CPython gives.
\<close>

datatype scan = Found "byte list" | NotFound | Raised string

fun scan_parts :: "(string \<Rightarrow> byte list option) \<Rightarrow> part list \<Rightarrow> scan" where
  "scan_parts dec [] = NotFound"
| "scan_parts dec (p # ps) =
     (case inline_data p of
        None \<Rightarrow> scan_parts dec ps
      | Some b \<Rightarrow>
          (case mime_type b of
             None \<Rightarrow> Raised (quoted ''NoneType'' @ '' object has no attribute '' @ quoted ''startswith'')
           | Some m \<Rightarrow>
               if startswith m ''image/'' then
                 (case data b of
                    None \<Rightarrow> Raised (''object of type '' @ quoted ''NoneType'' @ '' has no len()'')
                  | Some (Bytes bs) \<Rightarrow>
                      if length bs > 1000 then Found bs else scan_parts dec ps
                  | Some (Str s) \<Rightarrow>
                      if length s > 1000
                      then (case dec s of None \<Rightarrow> scan_parts dec ps | Some bs \<Rightarrow> Found bs)
                      else scan_parts dec ps)
               else scan_parts dec ps))"

fun scan_candidates :: "(string \<Rightarrow> byte list option) \<Rightarrow> candidate list \<Rightarrow> scan" where
  "scan_candidates dec [] = NotFound"
| "scan_candidates dec (c # cs) =
     (case content c of
        None \<Rightarrow> Raised (quoted ''NoneType'' @ '' object has no attribute '' @ quoted ''parts'')
      | Some ct \<Rightarrow>
          (case parts ct of
             None \<Rightarrow> Raised (quoted ''NoneType'' @ '' object is not iterable'')
           | Some ps \<Rightarrow>
               (case scan_parts dec ps of
                  NotFound \<Rightarrow> scan_candidates dec cs
                | Found bs \<Rightarrow> Found bs
                | Raised msg \<Rightarrow> Raised msg)))"

text \<open>
  The body of the \<^verbatim>\<open>try\<close> from the call of the endpoint on: the result is the text of
  the exception raised inside the \<^verbatim>\<open>try\<close>, or the output path once the bytes are written.
\<close>

definition save_image_from_response ::
  "env \<Rightarrow> api_result \<Rightarrow> string \<Rightarrow> world \<Rightarrow> (string + string) \<times> world" where
  "save_image_from_response e r output_path w =
     (case r of
        Raises msg \<Rightarrow> (Inl msg, w)
      | Returns None \<Rightarrow> (Inl ''No response received from Gemini API'', w)
      | Returns (Some resp) \<Rightarrow>
          (case candidates resp of
             None \<Rightarrow> (Inl ''No candidates in response'', w)
           | Some [] \<Rightarrow> (Inl ''No candidates in response'', w)
           | Some cs \<Rightarrow>
               (case scan_candidates (b64decode e) cs of
                  Raised msg \<Rightarrow> (Inl msg, w)
                | NotFound \<Rightarrow> (Inl ''No image generated in response'', w)
                | Found image_data \<Rightarrow>
                    (case open_write w output_path image_data of
                       Inl msg \<Rightarrow> (Inl msg, w)
                     | Inr w' \<Rightarrow> (Inr output_path, w')))))"

text \<open>
  \<^verbatim>\<open>generate_image_from_prompt\<close>. The cost is computed and added to \<^verbatim>\<open>self.total_cost\<close>
  before the \<^verbatim>\<open>try\<close>; a \<^verbatim>\<open>KeyError\<close> of \<^verbatim>\<open>calculate_cost\<close> leaves the method as it is.
  Every exception inside the \<^verbatim>\<open>try\<close> is caught and raised again as a \<^verbatim>\<open>RuntimeError\<close>.
  The result is the exception or the returned path, with the generator and the world
  as the call leaves them.
\<close>

definition generate_image_from_prompt ::
  "env \<Rightarrow> string \<Rightarrow> string \<Rightarrow> GeminiImageGenerator \<times> world
     \<Rightarrow> (exn + string) \<times> GeminiImageGenerator \<times> world" where
  "generate_image_from_prompt e prompt output_path = (\<lambda>(self, w).
     case calculate_cost self prompt False of
       Inl err \<Rightarrow> (Inl err, self, w)
     | Inr cost \<Rightarrow>
         let self = self\<lparr>GeminiImageGenerator.total_cost :=
                      float_add (GeminiImageGenerator.total_cost self) (cost_info.total_cost cost)\<rparr>;
             contents = [Prompt prompt];
             w = w\<lparr>api_calls := api_calls w @ [(model self, contents)]\<rparr>
         in case save_image_from_response e (generate_content e (model self) contents)
                   output_path w of
              (Inl msg, w) \<Rightarrow> (Inl (RuntimeError (''Failed to generate image: '' @ msg)), self, w)
            | (Inr p, w) \<Rightarrow> (Inr p, self, w))"

text \<open>
  \<^verbatim>\<open>generate_image_with_input\<close>: the same, with the cost of an input image, and with the
  input image loaded inside the \<^verbatim>\<open>try\<close> and sent before the prompt.
\<close>

definition generate_image_with_input ::
  "env \<Rightarrow> string \<Rightarrow> string \<Rightarrow> string \<Rightarrow> GeminiImageGenerator \<times> world
     \<Rightarrow> (exn + string) \<times> GeminiImageGenerator \<times> world" where
  "generate_image_with_input e input_image_path prompt output_path = (\<lambda>(self, w).
     case calculate_cost self prompt True of
       Inl err \<Rightarrow> (Inl err, self, w)
     | Inr cost \<Rightarrow>
         let self = self\<lparr>GeminiImageGenerator.total_cost :=
                      float_add (GeminiImageGenerator.total_cost self) (cost_info.total_cost cost)\<rparr>
         in case load_image e w input_image_path of
              Inl msg \<Rightarrow> (Inl (RuntimeError (''Failed to generate image: '' @ msg)), self, w)
            | Inr (image_data, mime) \<Rightarrow>
                let contents = [ImagePart image_data mime, Prompt prompt];
                    w = w\<lparr>api_calls := api_calls w @ [(model self, contents)]\<rparr>
                in case save_image_from_response e (generate_content e (model self) contents)
                          output_path w of
                     (Inl msg, w) \<Rightarrow>
                        (Inl (RuntimeError (''Failed to generate image: '' @ msg)), self, w)
                   | (Inr p, w) \<Rightarrow> (Inr p, self, w))"

section \<open>The web UI of \<^verbatim>\<open>app.py\<close>\<close>

text \<open>
  \<^verbatim>\<open>app.py\<close> keeps one generator in a global variable, \<open>None\<close> until the first request
  builds it from the environment. A request carries the fields of its JSON body; a
  response is the converted image with the cost data, or a status code with an error
  text. Functions of this module carry the prefix \<open>app\<close>, since \<^verbatim>\<open>web_api.py\<close> uses the
  same names.
\<close>

record app_request =
  json_prompt :: "string option"
  json_model :: "string option"

datatype app_response =
    Generated "byte list" cost_info pyfloat
  | Failed nat string
  | ResetDone pyfloat

text \<open>\<^verbatim>\<open>str.strip()\<close>, for characters up to code point 255.\<close>

definition py_isspace :: "char \<Rightarrow> bool" where
  "py_isspace c =
     (let n = (of_char c :: nat)
      in (9 \<le> n \<and> n \<le> 13) \<or> (28 \<le> n \<and> n \<le> 32) \<or> n = 133 \<or> n = 160)"

definition strip :: "string \<Rightarrow> string" where
  "strip s = rev (dropWhile py_isspace (rev (dropWhile py_isspace s)))"

definition init_generator ::
  "env \<Rightarrow> GeminiImageGenerator option \<Rightarrow> bool \<times> GeminiImageGenerator option" where
  "init_generator e generator =
     (case GEMINI_API_KEY e of
        None \<Rightarrow> (False, generator)
      | Some api_key \<Rightarrow>
          if api_key = [] then (False, generator)
          else (case GeminiImageGenerator_init e (Some api_key) ''gemini-2.5-flash-image-preview'' of
                  Inl err \<Rightarrow> (False, generator)
                | Inr g \<Rightarrow> (True, Some g)))"

text \<open>
  The endpoint \<^verbatim>\<open>/api/generate\<close> of \<^verbatim>\<open>app.py\<close>. \<open>tmp\<close> is the name of the temporary file
  that \<^verbatim>\<open>tempfile.NamedTemporaryFile\<close> creates. The handler computes the cost, calls
  \<^verbatim>\<open>generate_image_from_prompt\<close> (which adds the cost to the session total), reads the
  image back, removes the file, and then adds the cost to \<^verbatim>\<open>generator.total_cost\<close>
  itself. Any exception gives status 500 with its text.
\<close>

definition app_generate_image ::
  "env \<Rightarrow> string \<Rightarrow> app_request \<Rightarrow> GeminiImageGenerator option \<times> world
     \<Rightarrow> app_response \<times> GeminiImageGenerator option \<times> world" where
  "app_generate_image e tmp req = (\<lambda>(generator, w).
     let (ok, generator) =
           (if generator = None then init_generator e generator else (True, generator))
     in if \<not> ok then (Failed 500 ''Generator not initialized. Check GEMINI_API_KEY'', generator, w)
        else
          let g = the generator;
              prompt = strip (case json_prompt req of None \<Rightarrow> [] | Some p \<Rightarrow> p);
              model_id = (case json_model req of
                            None \<Rightarrow> ''gemini-2.5-flash-image-preview'' | Some m \<Rightarrow> m)
          in if prompt = [] then (Failed 400 ''Prompt is required'', Some g, w)
             else
               let g = (if model g \<noteq> model_id then g\<lparr>model := model_id\<rparr> else g)
               in case calculate_cost g prompt False of
                    Inl err \<Rightarrow> (Failed 500 (exn_str err), Some g, w)
                  | Inr cost \<Rightarrow>
                      (case open_write w tmp [] of
                         Inl msg \<Rightarrow> (Failed 500 msg, Some g, w)
                       | Inr w \<Rightarrow>
                           (case generate_image_from_prompt e prompt tmp (g, w) of
                              (Inl err, g, w) \<Rightarrow> (Failed 500 (exn_str err), Some g, w)
                            | (Inr output_path, g, w) \<Rightarrow>
                                (case open_read w output_path of
                                   Inl msg \<Rightarrow> (Failed 500 msg, Some g, w)
                                 | Inr image_data \<Rightarrow>
                                     (case os_remove w output_path of
                                        Inl msg \<Rightarrow> (Failed 500 msg, Some g, w)
                                      | Inr w \<Rightarrow>
                                          let g = g\<lparr>GeminiImageGenerator.total_cost :=
                                                     float_add (GeminiImageGenerator.total_cost g)
                                                       (cost_info.total_cost cost)\<rparr>
                                          in (Generated image_data cost
                                                (GeminiImageGenerator.total_cost g),
                                              Some g, w))))))"

text \<open>The endpoint \<^verbatim>\<open>/api/reset_cost\<close>.\<close>

definition app_reset_cost ::
  "GeminiImageGenerator option \<Rightarrow> app_response \<times> GeminiImageGenerator option" where
  "app_reset_cost generator =
     (case generator of
        Some g \<Rightarrow> (ResetDone 0, Some (g\<lparr>GeminiImageGenerator.total_cost := 0\<rparr>))
      | None \<Rightarrow> (Failed 500 ''Generator not initialized'', None))"

section \<open>The task API of \<^verbatim>\<open>web_api.py\<close>\<close>

text \<open>
  A task object. \<^verbatim>\<open>__init__\<close> sets six attributes; the sweep reads \<^verbatim>\<open>created_at\<close> and
  \<^verbatim>\<open>finished_at\<close> under \<^verbatim>\<open>hasattr\<close>, so these two are options, \<open>None\<close> for an attribute
  the object does not have. The status is one of the strings the source assigns.
\<close>

record GenerationTask =
  task_id :: string
  status :: string
  progress :: nat
  message :: string
  result_path :: "string option"
  error :: "string option"
  created_at :: "pyfloat option"
  finished_at :: "pyfloat option"

definition GenerationTask_init :: "string \<Rightarrow> GenerationTask" where
  "GenerationTask_init tid =
     \<lparr>task_id = tid, status = ''pending'', progress = 0, message = ''Task created'',
      result_path = None, error = None, created_at = None, finished_at = None\<rparr>"










type_synonym registry = "(string \<times> GenerationTask) list"



text \<open>
  The background thread works on the task object and assigns its attributes one at a
  time. The model returns the trace of the object: its state at the start and after each
  assignment, so that the last element is the state the thread leaves.
\<close>

definition assign ::
  "(GenerationTask \<Rightarrow> GenerationTask) \<Rightarrow> GenerationTask list \<Rightarrow> GenerationTask list" where
  "assign f tr = tr @ [f (last tr)]"

text \<open>
  \<^verbatim>\<open>if input_file_path and os.path.exists(input_file_path): os.remove(input_file_path)\<close>
\<close>

definition remove_upload :: "world \<Rightarrow> string option \<Rightarrow> string + world" where
  "remove_upload w input_file_path =
     (case input_file_path of
        None \<Rightarrow> Inr w
      | Some p \<Rightarrow> if p \<noteq> [] \<and> path_exists w p then os_remove w p else Inr w)"

text \<open>
  The \<^verbatim>\<open>except\<close> clause of the thread. An exception of the removal in the handler leaves
  the thread with the task as it is.
\<close>

definition background_except ::
  "string \<Rightarrow> string option \<Rightarrow> GenerationTask list \<times> world \<Rightarrow> GenerationTask list \<times> world" where
  "background_except msg input_file_path = (\<lambda>(tr, w).
     let tr = assign (\<lambda>t. t\<lparr>status := ''error''\<rparr>) tr;
         tr = assign (\<lambda>t. t\<lparr>error := Some msg\<rparr>) tr;
         tr = assign (\<lambda>t. t\<lparr>message := ''Error: '' @ msg\<rparr>) tr
     in case remove_upload w input_file_path of
          Inl msg' \<Rightarrow> (tr, w)
        | Inr w \<Rightarrow> (tr, w))"

text \<open>
  \<^verbatim>\<open>generate_image_background\<close>. Everything from the first assignment to the removal of
  the uploaded file is inside the \<^verbatim>\<open>try\<close>: an exception of the constructor, of the
  generation or of the removal enters the \<^verbatim>\<open>except\<close> clause.
\<close>

definition generate_image_background ::
  "env \<Rightarrow> GenerationTask \<Rightarrow> string \<Rightarrow> string \<Rightarrow> string \<Rightarrow> string option \<Rightarrow> world
     \<Rightarrow> GenerationTask list \<times> world" where
  "generate_image_background e task api_key model_id prompt input_file_path w =
     (let tr = assign (\<lambda>t. t\<lparr>status := ''initializing''\<rparr>) [task];
          tr = assign (\<lambda>t. t\<lparr>progress := 10\<rparr>) tr;
          tr = assign (\<lambda>t. t\<lparr>message := ''Initializing generator...''\<rparr>) tr
      in case GeminiImageGenerator_init e (Some api_key) model_id of
           Inl err \<Rightarrow> background_except (exn_str err) input_file_path (tr, w)
         | Inr generator \<Rightarrow>
             let tr = assign (\<lambda>t. t\<lparr>status := ''generating''\<rparr>) tr;
                 tr = assign (\<lambda>t. t\<lparr>progress := 30\<rparr>) tr;
                 tr = assign (\<lambda>t. t\<lparr>message := ''Generating image...''\<rparr>) tr;
                 output_filename = ''generated_'' @ task_id task @ ''.png'';
                 output_path = ''outputs/'' @ output_filename;
                 (tr, r, generator, w) =
                   (case input_file_path of
                      None \<Rightarrow>
                        (assign (\<lambda>t. t\<lparr>message := ''Generating image from prompt...''\<rparr>) tr,
                         generate_image_from_prompt e prompt output_path (generator, w))
                    | Some p \<Rightarrow>
                        if p \<noteq> [] \<and> path_exists w p
                        then (assign (\<lambda>t. t\<lparr>message := ''Generating image with input...''\<rparr>) tr,
                              generate_image_with_input e p prompt output_path (generator, w))
                        else (assign (\<lambda>t. t\<lparr>message := ''Generating image from prompt...''\<rparr>) tr,
                              generate_image_from_prompt e prompt output_path (generator, w)))
             in case r of
                  Inl err \<Rightarrow> background_except (exn_str err) input_file_path (tr, w)
                | Inr p \<Rightarrow>
                    let tr = assign (\<lambda>t. t\<lparr>status := ''completed''\<rparr>) tr;
                        tr = assign (\<lambda>t. t\<lparr>progress := 100\<rparr>) tr;
                        tr = assign (\<lambda>t. t\<lparr>message := ''Image generated successfully!''\<rparr>) tr;
                        tr = assign (\<lambda>t. t\<lparr>result_path := Some p\<rparr>) tr
                    in case remove_upload w input_file_path of
                         Inl msg \<Rightarrow> background_except msg input_file_path (tr, w)
                       | Inr w \<Rightarrow> (tr, w))"

text \<open>
  \<^verbatim>\<open>cleanup_old_tasks\<close>, with the clock value \<^verbatim>\<open>time.time()\<close> as \<open>current_time\<close>. The first
  loop collects \<^verbatim>\<open>to_remove\<close> and stamps \<^verbatim>\<open>finished_at\<close> on a finished task that has
  none; the second loop removes the result file and the entry of each collected task
  that is still registered. An exception of \<^verbatim>\<open>os.remove\<close> ends the sweep with its text.
\<close>

fun sweep_collect :: "pyfloat \<Rightarrow> registry \<Rightarrow> registry \<times> string list" where
  "sweep_collect current_time [] = ([], [])"
| "sweep_collect current_time ((tid, task) # rest) =
     (let old =
            (case created_at task of
               None \<Rightarrow> []
             | Some c \<Rightarrow> if float_sub current_time c > 3600 then [tid] else []);
          (task, done) =
            (if status task \<in> set [''completed'', ''error'']
             then (case finished_at task of
                     None \<Rightarrow> (task\<lparr>finished_at := Some current_time\<rparr>, [])
                   | Some f \<Rightarrow> (task, if float_sub current_time f > 600 then [tid] else []))
             else (task, []));
          (rest, to_remove) = sweep_collect current_time rest
      in ((tid, task) # rest, old @ done @ to_remove))"

fun sweep_remove :: "string list \<Rightarrow> registry \<times> world \<Rightarrow> string option \<times> registry \<times> world" where
  "sweep_remove [] (active_tasks, w) = (None, active_tasks, w)"
| "sweep_remove (tid # to_remove) (active_tasks, w) =
     (case map_of active_tasks tid of
        None \<Rightarrow> sweep_remove to_remove (active_tasks, w)
      | Some task \<Rightarrow>
          (case (case result_path task of
                   None \<Rightarrow> Inr w
                 | Some p \<Rightarrow> if p \<noteq> [] \<and> path_exists w p then os_remove w p else Inr w) of
             Inl msg \<Rightarrow> (Some msg, active_tasks, w)
           | Inr w \<Rightarrow> sweep_remove to_remove (AList.delete tid active_tasks, w)))"

definition cleanup_old_tasks ::
  "pyfloat \<Rightarrow> registry \<times> world \<Rightarrow> string option \<times> registry \<times> world" where
  "cleanup_old_tasks current_time = (\<lambda>(active_tasks, w).
     let (active_tasks, to_remove) = sweep_collect current_time active_tasks
     in sweep_remove to_remove (active_tasks, w))"

section \<open>Vocabulary of the properties and example inputs\<close>

text \<open>
  A part that the scan passes over without raising: it has no inline data, or its inline
  data has a MIME type and either that type does not start with \<^verbatim>\<open>image/\<close> or the data is
  present and no longer than 1000. A candidate is passed over when its content and its
  parts are present and every part is.
\<close>

fun blob_len :: "blob_data \<Rightarrow> nat" where
  "blob_len (Bytes bs) = length bs"
| "blob_len (Str s) = length s"

definition passed_over :: "part \<Rightarrow> bool" where
  "passed_over p =
     (case inline_data p of
        None \<Rightarrow> True
      | Some b \<Rightarrow>
          (case mime_type b of
             None \<Rightarrow> False
           | Some m \<Rightarrow>
               if startswith m ''image/''
               then (case data b of None \<Rightarrow> False | Some d \<Rightarrow> blob_len d \<le> 1000)
               else True))"

definition candidate_passed_over :: "candidate \<Rightarrow> bool" where
  "candidate_passed_over c =
     (case content c of
        None \<Rightarrow> False
      | Some ct \<Rightarrow> (case parts ct of None \<Rightarrow> False | Some ps \<Rightarrow> list_all passed_over ps))"

text \<open>
  A part qualifies when it carries inline data whose MIME type starts with \<^verbatim>\<open>image/\<close> and
  whose data is longer than 1000. The parts of a candidate are those the scan can reach:
  none when the content or its parts are missing.
\<close>

definition qualifies :: "part \<Rightarrow> bool" where
  "qualifies p =
     (case inline_data p of
        None \<Rightarrow> False
      | Some b \<Rightarrow>
          (case mime_type b of
             None \<Rightarrow> False
           | Some m \<Rightarrow>
               startswith m ''image/''
               \<and> (case data b of None \<Rightarrow> False | Some d \<Rightarrow> 1000 < blob_len d)))"

definition candidate_parts :: "candidate \<Rightarrow> part list" where
  "candidate_parts c =
     (case content c of
        None \<Rightarrow> []
      | Some ct \<Rightarrow> (case parts ct of None \<Rightarrow> [] | Some ps \<Rightarrow> ps))"

definition response_parts :: "response \<Rightarrow> part list" where
  "response_parts resp =
     (case candidates resp of None \<Rightarrow> [] | Some cs \<Rightarrow> concat (map candidate_parts cs))"

definition text_part :: "string \<Rightarrow> part" where
  "text_part t = \<lparr>part_text = Some t, inline_data = None\<rparr>"

definition image_part :: "string \<Rightarrow> byte list \<Rightarrow> part" where
  "image_part m bs =
     \<lparr>part_text = None, inline_data = Some \<lparr>mime_type = Some m, data = Some (Bytes bs)\<rparr>\<rparr>"

definition one_candidate :: "part list \<Rightarrow> response" where
  "one_candidate ps = \<lparr>candidates = Some [\<lparr>content = Some \<lparr>parts = Some ps\<rparr>\<rparr>]\<rparr>"

text \<open>
  An environment whose endpoint answers every request with \<open>r\<close>, with the key \<^verbatim>\<open>key\<close> in
  \<^verbatim>\<open>GEMINI_API_KEY\<close>; a world without files in which nothing fails; the generator that
  \<^verbatim>\<open>GeminiImageGenerator(api_key='key')\<close> builds.
\<close>

definition answering :: "api_result \<Rightarrow> env" where
  "answering r =
     \<lparr>generate_content = (\<lambda>model_id contents. r), b64decode = (\<lambda>s. None),
      image_format = (\<lambda>bs. None), GEMINI_API_KEY = Some ''key''\<rparr>"

definition empty_world :: world where
  "empty_world =
     \<lparr>files = Map.empty, open_fails = Map.empty, remove_fails = Map.empty, api_calls = []\<rparr>"

definition example_generator :: GeminiImageGenerator where
  "example_generator =
     \<lparr>client_api_key = ''key'', model = ''gemini-2.5-flash-image-preview'', total_cost = 0\<rparr>"

definition world_with_input :: world where
  "world_with_input =
     \<lparr>files = [''in.jpg'' \<mapsto> [255, 216, 255]], open_fails = Map.empty,
      remove_fails = Map.empty, api_calls = []\<rparr>"

text \<open>A response with one candidate: a text part, then a PNG part of 1001 bytes.\<close>

definition image_answer :: response where
  "image_answer =
     one_candidate [text_part ''Here is your image'', image_part ''image/png'' (replicate 1001 0)]"

text \<open>A world with an uploaded file that can be read but not removed.\<close>

definition locked_upload_world :: world where
  "locked_upload_world =
     \<lparr>files = [''uploads/u1_cat.png'' \<mapsto> [255, 216, 255]],
      open_fails = Map.empty,
      remove_fails = [''uploads/u1_cat.png'' \<mapsto> ''[Errno 13] Permission denied''],
      api_calls = []\<rparr>"



text \<open>
  A response with two candidates. The first holds a text part, a PNG part of 1000 bytes, a
  PNG part of 1001 bytes and a JPEG part of 2000 bytes; the second has no content.
\<close>

definition mixed_answer :: response where
  "mixed_answer =
     \<lparr>candidates = Some
        [\<lparr>content = Some \<lparr>parts = Some
            ([text_part ''Here is your image'', image_part ''image/png'' (replicate 1000 7)]
             @ image_part ''image/png'' (replicate 1001 0)
             # [image_part ''image/jpeg'' (replicate 2000 1)])\<rparr>\<rparr>,
         \<lparr>content = None\<rparr>]\<rparr>"

section \<open>Properties\<close>

subsection \<open>Rounding\<close>

lemma floor_rat_numeral [simp]:
  "\<lfloor>numeral a / numeral b :: rat\<rfloor> = numeral a div numeral b"
  by (metis floor_divide_of_int_eq of_int_numeral)

lemma two_powi_Suc: "(2::rat) powi (e + 1) = 2 * 2 powi e"
  by (simp add: power_int_add)

lemma expo_up_bounds: "1 \<le> x \<Longrightarrow> 2 powi (expo_up x) \<le> x \<and> x < 2 powi (expo_up x + 1)"
proof (induction x rule: expo_up.induct)
  case (1 x)
  show ?case
  proof (cases "x < 2")
    case True
    then have "expo_up x = 0" by (subst expo_up.simps) simp
    with 1 True show ?thesis by simp
  next
    case False
    define e where "e = expo_up (x / 2)"
    from False have "1 \<le> x / 2" by simp
    with 1 False have "2 powi e \<le> x / 2 \<and> x / 2 < 2 powi (e + 1)"
      unfolding e_def by blast
    moreover have "expo_up x = e + 1" using False unfolding e_def by (subst expo_up.simps) simp
    moreover note two_powi_Suc [of e] two_powi_Suc [of "e + 1"]
    ultimately show ?thesis by simp
  qed
qed

lemma expo_down_bounds:
  "0 < x \<Longrightarrow> x < 1 \<Longrightarrow> 2 powi (expo_down x) \<le> x \<and> x < 2 powi (expo_down x + 1)"
proof (induction x rule: expo_down.induct)
  case (1 x)
  define e where "e = expo_down x"
  have step: "expo_down (2 * x) = e + 1"
    using 1(2,3) unfolding e_def by (subst (2) expo_down.simps) simp
  show ?case
  proof (cases "2 * x < 1")
    case True
    with 1 step have "2 powi (e + 1) \<le> 2 * x \<and> 2 * x < 2 powi (e + 1 + 1)"
      by auto
    with two_powi_Suc [of e] two_powi_Suc [of "e + 1"] show ?thesis
      unfolding e_def [symmetric] by simp
  next
    case False
    then have "expo_down (2 * x) = 0" by (subst expo_down.simps) simp
    with step have "e = - 1" by simp
    with False 1 show ?thesis unfolding e_def [symmetric] by (simp add: power_int_minus)
  qed
qed

lemma expo_bounds: "0 < x \<Longrightarrow> 2 powi (expo x) \<le> x \<and> x < 2 powi (expo x + 1)"
  using expo_up_bounds [of x] expo_down_bounds [of x] by (cases "1 \<le> x") (simp_all add: expo_def)

lemma two_powi_less_imp: "(2::rat) powi a < 2 powi b \<Longrightarrow> a < b"
  using power_int_increasing [of b a "2::rat"] by (cases "a < b") simp_all

lemma expo_unique:
  assumes "0 < x" "2 powi e \<le> x" "x < 2 powi (e + 1)"
  shows "expo x = e"
proof -
  from expo_bounds [OF assms(1)] assms have a: "(2::rat) powi e < 2 powi (expo x + 1)"
    and b: "(2::rat) powi (expo x) < 2 powi (e + 1)" by linarith+
  from a have "e < expo x + 1" by (rule two_powi_less_imp)
  moreover from b have "expo x < e + 1" by (rule two_powi_less_imp)
  ultimately show ?thesis by simp
qed

lemma round_half_even_of_int [simp]: "round_half_even (of_int n) = n"
  by (simp add: round_half_even_def)

lemma round_half_even_ge: "of_int a \<le> q \<Longrightarrow> a \<le> round_half_even q"
proof -
  assume "of_int a \<le> q"
  then have "a \<le> \<lfloor>q\<rfloor>" by (simp add: le_floor_iff)
  then show ?thesis by (simp add: round_half_even_def Let_def)
qed

lemma round_half_even_le: "q \<le> of_int b \<Longrightarrow> round_half_even q \<le> b"
proof -
  assume q: "q \<le> of_int b"
  then have fb: "\<lfloor>q\<rfloor> \<le> b" by (simp add: floor_le_iff)
  show ?thesis
  proof (cases "\<lfloor>q\<rfloor> = b")
    case True
    with q have "q = of_int b" by linarith
    then show ?thesis by simp
  next
    case False
    with fb have "\<lfloor>q\<rfloor> + 1 \<le> b" by simp
    then show ?thesis by (simp add: round_half_even_def Let_def)
  qed
qed

lemma fl_pos:
  assumes "0 < x" "2 powi e \<le> x" "x < 2 powi (e + 1)"
  shows "fl x = of_int (round_half_even (x / 2 powi (e - 52))) * 2 powi (e - 52)"
  using assms expo_unique [OF assms] by (simp add: fl_def Let_def)

lemma fl_minus: "fl (- x) = - fl x"
  by (simp add: fl_def Let_def)

lemma fl_pos_repr:
  assumes "0 < x"
  obtains n :: int and e :: int where "fl x = of_int n * 2 powi (e - 52)"
    "2 ^ 52 \<le> n" "n \<le> 2 ^ 53"
proof -
  define e where "e = expo x"
  define u :: rat where "u = 2 powi (e - 52)"
  define n where "n = round_half_even (x / u)"
  have u: "0 < u" by (simp add: u_def)
  have lo: "(2::rat) powi e = 2 ^ 52 * u"
    using power_int_add [of "2::rat" "e - 52" 52] by (simp add: u_def)
  then have hi: "(2::rat) powi (e + 1) = 2 ^ 53 * u" by (simp add: two_powi_Suc)
  from expo_bounds [OF assms] have b: "2 powi e \<le> x" "x < 2 powi (e + 1)" by (simp_all add: e_def)
  from b(1) lo u have "of_int (2 ^ 52) \<le> x / u" by (simp add: pos_le_divide_eq)
  then have n1: "2 ^ 52 \<le> n" unfolding n_def by (rule round_half_even_ge)
  from b(2) hi u have "x / u \<le> of_int (2 ^ 53)" by (simp add: pos_divide_le_eq)
  then have n2: "n \<le> 2 ^ 53" unfolding n_def by (rule round_half_even_le)
  have "fl x = of_int n * 2 powi (e - 52)"
    using fl_pos [OF assms b] by (simp add: n_def u_def)
  then show ?thesis using n1 n2 that by blast
qed

lemma fl_repr_fixed:
  assumes "2 ^ 52 \<le> n" "n \<le> 2 ^ 53"
  shows "fl (of_int n * 2 powi (e - 52)) = of_int n * 2 powi (e - 52)"
proof -
  define u :: rat where "u = 2 powi (e - 52)"
  define y where "y = of_int n * u"
  have u: "0 < u" by (simp add: u_def)
  have lo: "(2::rat) powi e = 2 ^ 52 * u"
    using power_int_add [of "2::rat" "e - 52" 52] by (simp add: u_def)
  then have hi: "(2::rat) powi (e + 1) = 2 ^ 53 * u" by (simp add: two_powi_Suc)
  then have hi2: "(2::rat) powi (e + 1 + 1) = 2 ^ 54 * u" using two_powi_Suc [of "e + 1"] by simp
  have u2: "(2::rat) powi (e - 51) = 2 * u"
    using two_powi_Suc [of "e - 52"] by (simp add: u_def)
  from assms have nr: "(2::rat) ^ 52 \<le> of_int n" "(of_int n :: rat) \<le> 2 ^ 53"
    by (metis of_int_le_iff of_int_numeral of_int_power)+
  then have ypos: "0 < y" using u by (simp add: y_def)
  show ?thesis
  proof (cases "n = 2 ^ 53")
    case False
    with assms have "n < 2 ^ 53" by simp
    then have "(of_int n :: rat) < 2 ^ 53" by (metis of_int_less_iff of_int_numeral of_int_power)
    with nr u have "2 powi e \<le> y" "y < 2 powi (e + 1)" by (simp_all add: lo hi y_def)
    from fl_pos [OF ypos this] u show ?thesis by (simp add: y_def u_def [symmetric])
  next
    case True
    then have y: "y = 2 ^ 53 * u" by (simp add: y_def)
    have "2 powi (e + 1) \<le> y" unfolding hi y by simp
    moreover have "y < 2 powi (e + 1 + 1)" unfolding hi2 y using u by simp
    ultimately have "fl y = of_int (round_half_even (y / (2 * u))) * (2 * u)"
      using fl_pos [OF ypos, of "e + 1"] by (simp add: u2)
    moreover have "y / (2 * u) = of_int (2 ^ 52)" using u by (simp add: y)
    ultimately have "fl y = of_int (2 ^ 52) * (2 * u)" by (simp only: round_half_even_of_int)
    then show ?thesis using True by (simp add: y_def u_def [symmetric])
  qed
qed

lemma fl_idem_pos: "0 < x \<Longrightarrow> fl (fl x) = fl x"
  by (erule fl_pos_repr) (simp add: fl_repr_fixed)

lemma fl_idem: "fl (fl x) = fl x"
proof (cases "0 < x")
  case True
  then show ?thesis by (rule fl_idem_pos)
next
  case False
  show ?thesis
  proof (cases "x = 0")
    case True
    then show ?thesis by (simp add: fl_def)
  next
    case False
    with \<open>\<not> 0 < x\<close> have "0 < - x" by simp
    then have "fl (fl (- x)) = fl (- x)" by (rule fl_idem_pos)
    then show ?thesis by (simp add: fl_minus)
  qed
qed

text \<open>One rounding changes a value by at most the fraction \<open>2\<^sup>-\<^sup>5\<^sup>3\<close> of it.\<close>

lemma round_half_even_error: "\<bar>of_int (round_half_even q) - q\<bar> \<le> 1 / 2"
proof -
  have "of_int \<lfloor>q\<rfloor> \<le> q" "q < of_int \<lfloor>q\<rfloor> + 1" by linarith+
  then show ?thesis by (auto simp: round_half_even_def Let_def)
qed

lemma fl_error_pos:
  assumes "0 < x"
  shows "\<bar>fl x - x\<bar> \<le> x / 2 ^ 53"
proof -
  define e where "e = expo x"
  define u :: rat where "u = 2 powi (e - 52)"
  have u: "0 < u" by (simp add: u_def)
  have lo: "(2::rat) powi e = 2 ^ 52 * u"
    using power_int_add [of "2::rat" "e - 52" 52] by (simp add: u_def)
  from expo_bounds [OF assms] have b: "2 powi e \<le> x" "x < 2 powi (e + 1)"
    by (simp_all add: e_def)
  have "fl x = of_int (round_half_even (x / u)) * u"
    using fl_pos [OF assms b] by (simp add: u_def)
  then have "fl x - x = (of_int (round_half_even (x / u)) - x / u) * u"
    using u by (simp add: algebra_simps)
  then have "\<bar>fl x - x\<bar> = \<bar>of_int (round_half_even (x / u)) - x / u\<bar> * u"
    using u by (simp add: abs_mult)
  also have "\<dots> \<le> (1 / 2) * u"
    using round_half_even_error [of "x / u"] u by (intro mult_right_mono) simp_all
  also have "\<dots> \<le> x / 2 ^ 53"
    using b(1) lo by simp
  finally show ?thesis .
qed

lemma fl_error: "\<bar>fl x - x\<bar> \<le> \<bar>x\<bar> / 2 ^ 53"
proof (cases "0 < x")
  case True
  with fl_error_pos [OF True] show ?thesis by simp
next
  case False
  show ?thesis
  proof (cases "x = 0")
    case True
    then show ?thesis by (simp add: fl_def)
  next
    case False
    with \<open>\<not> 0 < x\<close> have "0 < - x" by simp
    from fl_error_pos [OF this] show ?thesis using \<open>0 < - x\<close> by (simp add: fl_minus)
  qed
qed

subsection \<open>The cost estimate\<close>

lemma float_add_zero_right: "float_add (float_add a b) 0 = float_add a b"
  by (simp add: float_add_def fl_idem)

lemma float_add_zero_left: "float_add 0 (float_add a b) = float_add a b"
  by (simp add: float_add_def fl_idem)

lemma float_mul_add_zero: "float_add (float_mul a b) 0 = float_mul a b"
  by (simp add: float_add_def float_mul_def fl_idem)

lemma map_of_example:
  "map_of AVAILABLE_MODELS (model example_generator) = Some gemini_25_flash_image"
  by (simp add: AVAILABLE_MODELS_def example_generator_def)

text \<open>
  C1, amended: for a prompt \<open>P\<close> and a generator whose model is in the table with
  descriptor \<open>M\<close>, \<^verbatim>\<open>calculate_cost\<close> without an input image returns
  \<open>input_chars = len(P)\<close>, \<open>input_text_cost = (len(P) / 1000) * M.input_cost_per_1k_chars\<close>,
  \<open>output_image_cost = M.output_cost_per_image\<close>, \<open>input_image_cost = 0\<close> and, as
  \<open>total_cost\<close>, the sum of the text cost and the image price. With an input image the
  total is the float sum of that total and \<open>M.output_cost_per_image\<close>: it is larger than
  that total by the image price up to the rounding of this one addition, which is at most
  the fraction \<open>2\<^sup>-\<^sup>5\<^sup>3\<close> of the exact sum. The operations are those of Python floats.
\<close>

theorem calculate_cost_formula:
  assumes "map_of AVAILABLE_MODELS (model self) = Some M"
  shows "let a = float_mul (int_truediv (int (length P)) 1000)
                   (input_cost_per_1k_chars (pricing M));
             b = output_cost_per_image (pricing M)
         in calculate_cost self P False =
              Inr \<lparr>input_text_cost = a, input_image_cost = 0, output_image_cost = b,
                   total_cost = float_add a b, input_chars = length P\<rparr>
          \<and> calculate_cost self P True =
              Inr \<lparr>input_text_cost = a, input_image_cost = b, output_image_cost = b,
                   total_cost = float_add (float_add a b) b, input_chars = length P\<rparr>
          \<and> \<bar>float_add (float_add a b) b - (float_add a b + b)\<bar>
              \<le> \<bar>float_add a b + b\<bar> / 2 ^ 53"
  using assms fl_error [of "float_add (float_mul (int_truediv (int (length P)) 1000)
                   (input_cost_per_1k_chars (pricing M))) (output_cost_per_image (pricing M))
                   + output_cost_per_image (pricing M)"]
  by (simp add: calculate_cost_def Let_def float_add_zero_right)
     (simp add: float_add_def)

theorem calculate_cost_formula_witness:
  "map_of AVAILABLE_MODELS (model example_generator) = Some gemini_25_flash_image
   \<and> (let a = float_mul (int_truediv (int (length ''A red circle on white background'')) 1000)
                   (input_cost_per_1k_chars (pricing gemini_25_flash_image));
             b = output_cost_per_image (pricing gemini_25_flash_image)
         in calculate_cost example_generator ''A red circle on white background'' False =
              Inr \<lparr>input_text_cost = a, input_image_cost = 0, output_image_cost = b,
                   total_cost = float_add a b,
                   input_chars = length ''A red circle on white background''\<rparr>
          \<and> calculate_cost example_generator ''A red circle on white background'' True =
              Inr \<lparr>input_text_cost = a, input_image_cost = b, output_image_cost = b,
                   total_cost = float_add (float_add a b) b,
                   input_chars = length ''A red circle on white background''\<rparr>
          \<and> \<bar>float_add (float_add a b) b - (float_add a b + b)\<bar>
              \<le> \<bar>float_add a b + b\<bar> / 2 ^ 53)"
  using calculate_cost_formula [OF map_of_example, of "''A red circle on white background''"]
    map_of_example by blast

text \<open>
  C8: for every prompt, every model of the table and both values of \<open>has_input_image\<close>,
  \<^verbatim>\<open>calculate_cost\<close> returns a breakdown whose \<open>total_cost\<close> is
  \<open>input_text_cost + input_image_cost + output_image_cost\<close>, the sum taken from left to
  right in Python floats.
\<close>

theorem total_cost_is_sum_of_parts:
  assumes "map_of AVAILABLE_MODELS (model self) = Some M"
  shows "\<exists>c. calculate_cost self P has_input_image = Inr c
           \<and> cost_info.total_cost c =
               float_add (float_add (input_text_cost c) (input_image_cost c))
                 (output_image_cost c)"
  using assms
  by (simp add: calculate_cost_def Let_def float_add_zero_right float_mul_add_zero)

theorem total_cost_is_sum_of_parts_witness:
  "map_of AVAILABLE_MODELS (model example_generator) = Some gemini_25_flash_image
   \<and> (\<exists>c. calculate_cost example_generator ''A red circle on white background'' True = Inr c
           \<and> cost_info.total_cost c =
               float_add (float_add (input_text_cost c) (input_image_cost c))
                 (output_image_cost c))"
  using total_cost_is_sum_of_parts [OF map_of_example] map_of_example by blast

text \<open>
  The binary64 values behind the example of the specification: the two prices,
  \<open>32 / 1000\<close>, the text cost and the total.
\<close>

lemma fl_price_in: "fl (25 / 100000) = 1152921504606847 / 4611686018427387904"
  using fl_pos [of "25 / 100000" "- 12"] by (simp add: round_half_even_def power_int_minus)

lemma fl_price_out: "fl (2734375 / 1000000000) = 3152519739159347 / 1152921504606846976"
  using fl_pos [of "2734375 / 1000000000" "- 9"]
  by (simp add: round_half_even_def power_int_minus)

lemma example_pricing:
  "pricing gemini_25_flash_image =
     \<lparr>input_cost_per_1k_chars = 1152921504606847 / 4611686018427387904,
      output_cost_per_image = 3152519739159347 / 1152921504606846976\<rparr>"
  unfolding gemini_25_flash_image_def fl_price_in fl_price_out by simp

lemma div_32: "int_truediv 32 1000 = 1152921504606847 / 36028797018963968"
  using fl_pos [of "32 / 1000" "- 5"]
  by (simp add: int_truediv_def round_half_even_def power_int_minus)

lemma mul_32:
  "float_mul (1152921504606847 / 36028797018963968) (1152921504606847 / 4611686018427387904)
     = 4722366482869645 / 590295810358705651712"
  using fl_pos [of "(1152921504606847 / 36028797018963968)
                      * (1152921504606847 / 4611686018427387904)" "- 17"]
  by (simp add: float_mul_def round_half_even_def power_int_minus)

lemma add_32:
  "float_add (4722366482869645 / 590295810358705651712)
     (3152519739159347 / 1152921504606846976) = 1580871555598101 / 576460752303423488"
  using fl_pos [of "4722366482869645 / 590295810358705651712
                      + 3152519739159347 / 1152921504606846976" "- 9"]
  by (simp add: float_add_def round_half_even_def power_int_minus)

lemma example_cost:
  "calculate_cost example_generator ''A red circle on white background'' False =
     Inr \<lparr>input_text_cost = 4722366482869645 / 590295810358705651712,
          input_image_cost = 0,
          output_image_cost = 3152519739159347 / 1152921504606846976,
          total_cost = 1580871555598101 / 576460752303423488,
          input_chars = 32\<rparr>"
  by (simp add: calculate_cost_def map_of_example example_pricing Let_def div_32 mul_32 add_32
      float_add_zero_right)

text \<open>The binary64 values of the estimate for a prompt of one character.\<close>

lemma div_1: "int_truediv 1 1000 = 1152921504606847 / 1152921504606846976"
  using fl_pos [of "1 / 1000" "- 10"]
  by (simp add: int_truediv_def round_half_even_def power_int_minus)

lemma mul_1:
  "float_mul (1152921504606847 / 1152921504606846976) (1152921504606847 / 4611686018427387904)
     = 4722366482869645 / 18889465931478580854784"
  using fl_pos [of "(1152921504606847 / 1152921504606846976)
                      * (1152921504606847 / 4611686018427387904)" "- 22"]
  by (simp add: float_mul_def round_half_even_def power_int_minus)

lemma add_1:
  "float_add (4722366482869645 / 18889465931478580854784)
     (3152519739159347 / 1152921504606846976) = 6305615939070997 / 2305843009213693952"
  using fl_pos [of "4722366482869645 / 18889465931478580854784
                      + 3152519739159347 / 1152921504606846976" "- 9"]
  by (simp add: float_add_def round_half_even_def power_int_minus)

lemma add_1_image:
  "float_add (6305615939070997 / 2305843009213693952)
     (3152519739159347 / 1152921504606846976) = 3152663854347423 / 576460752303423488"
  using fl_pos [of "6305615939070997 / 2305843009213693952
                      + 3152519739159347 / 1152921504606846976" "- 8"]
  by (simp add: float_add_def round_half_even_def power_int_minus)

lemma sub_1:
  "float_sub (3152663854347423 / 576460752303423488) (6305615939070997 / 2305843009213693952)
     = 6305039478318695 / 2305843009213693952"
  using fl_pos [of "3152663854347423 / 576460752303423488
                      - 6305615939070997 / 2305843009213693952" "- 9"]
  by (simp add: float_sub_def round_half_even_def power_int_minus)

lemma one_char_cost:
  "calculate_cost example_generator ''x'' False =
     Inr \<lparr>input_text_cost = 4722366482869645 / 18889465931478580854784,
          input_image_cost = 0,
          output_image_cost = 3152519739159347 / 1152921504606846976,
          total_cost = 6305615939070997 / 2305843009213693952,
          input_chars = 1\<rparr>"
  "calculate_cost example_generator ''x'' True =
     Inr \<lparr>input_text_cost = 4722366482869645 / 18889465931478580854784,
          input_image_cost = 3152519739159347 / 1152921504606846976,
          output_image_cost = 3152519739159347 / 1152921504606846976,
          total_cost = 3152663854347423 / 576460752303423488,
          input_chars = 1\<rparr>"
  by (simp_all add: calculate_cost_def map_of_example example_pricing Let_def div_1 mul_1 add_1
      add_1_image float_add_zero_right)

text \<open>
  C1, as the specification states it, makes the total with an input image exactly
  \<open>M.output_cost_per_image\<close> larger than the total without. It fails for the returned
  values: for the prompt \<^verbatim>\<open>x\<close> the two totals differ by the image price plus \<open>2\<^sup>-\<^sup>6\<^sup>1\<close>, and
  their float difference is not the image price either.
\<close>

theorem total_difference_counterexample:
  "cost_info.total_cost (projr (calculate_cost example_generator ''x'' True))
     - cost_info.total_cost (projr (calculate_cost example_generator ''x'' False))
     = output_cost_per_image (pricing gemini_25_flash_image) + 1 / 2 ^ 61
   \<and> float_sub (cost_info.total_cost (projr (calculate_cost example_generator ''x'' True)))
        (cost_info.total_cost (projr (calculate_cost example_generator ''x'' False)))
     \<noteq> output_cost_per_image (pricing gemini_25_flash_image)"
  by (simp add: one_char_cost example_pricing sub_1)

text \<open>
  C9, as the specification states it: the prompt \<^verbatim>\<open>A red circle on white background\<close> has
  33 characters and the estimate yields a text cost of about 0.00000825 and a total of
  about 0.0027426. It fails: the prompt has 32 characters, and both figures are off by
  more than two units of the last digit the claim prints.
\<close>

theorem example_cost_counterexample:
  "input_chars (projr (calculate_cost example_generator
       ''A red circle on white background'' False)) \<noteq> 33
   \<and> 2 / 10 ^ 7 < \<bar>input_text_cost (projr (calculate_cost example_generator
                       ''A red circle on white background'' False)) - 825 / 10 ^ 8\<bar>
   \<and> 2 / 10 ^ 7 < \<bar>cost_info.total_cost (projr (calculate_cost example_generator
                       ''A red circle on white background'' False)) - 27426 / 10 ^ 7\<bar>"
  by (simp add: example_cost)

text \<open>
  C9, amended: the prompt \<^verbatim>\<open>A red circle on white background\<close> has 32 characters, and
  with the prices 0.00025 and 0.002734375 and no input image the estimate yields a text
  cost of 0.000008 and a total of 0.002742375, each up to the rounding of binary64.
\<close>

theorem example_cost_32_chars:
  "\<exists>c. calculate_cost example_generator ''A red circle on white background'' False = Inr c
     \<and> input_chars c = 32
     \<and> \<bar>input_text_cost c - 8 / 10 ^ 6\<bar> < 1 / 10 ^ 20
     \<and> \<bar>cost_info.total_cost c - 2742375 / 10 ^ 9\<bar> < 1 / 10 ^ 18"
  by (simp add: example_cost)

subsection \<open>Reading the response\<close>

lemma scan_parts_passed_over:
  "list_all passed_over ps \<Longrightarrow> scan_parts dec ps = NotFound"
proof (induction ps)
  case Nil
  then show ?case by simp
next
  case (Cons p ps)
  then have p: "passed_over p" and ps: "scan_parts dec ps = NotFound" by simp_all
  show ?case
  proof (cases "inline_data p")
    case None
    with ps show ?thesis by simp
  next
    case (Some b)
    with p obtain m where m: "mime_type b = Some m"
      by (auto simp: passed_over_def split: option.splits)
    show ?thesis
    proof (cases "startswith m ''image/''")
      case False
      with Some m ps show ?thesis by simp
    next
      case True
      with p Some m obtain d where d: "data b = Some d" "blob_len d \<le> 1000"
        by (auto simp: passed_over_def split: option.splits)
      with Some m True ps show ?thesis by (cases d) simp_all
    qed
  qed
qed

lemma scan_candidates_passed_over:
  "list_all candidate_passed_over cs \<Longrightarrow> scan_candidates dec cs = NotFound"
proof (induction cs)
  case Nil
  then show ?case by simp
next
  case (Cons c cs)
  then obtain ct ps where "content c = Some ct" "parts ct = Some ps" "list_all passed_over ps"
    by (auto simp: candidate_passed_over_def split: option.splits)
  with Cons show ?case by (simp add: scan_parts_passed_over)
qed

lemma save_no_image:
  assumes "candidates resp = Some cs" "cs \<noteq> []" "list_all candidate_passed_over cs"
  shows "save_image_from_response e (Returns (Some resp)) output_path w
           = (Inl ''No image generated in response'', w)"
  using assms by (cases cs) (simp_all add: save_image_from_response_def
      scan_candidates_passed_over del: scan_candidates.simps)

lemma save_text_then_image:
  assumes "startswith m ''image/''" "1000 < length bs" "open_fails w output_path = None"
  shows "save_image_from_response e (Returns (Some (one_candidate [text_part t, image_part m bs])))
           output_path w = (Inr output_path, w\<lparr>files := (files w)(output_path \<mapsto> bs)\<rparr>)"
  using assms
  by (simp add: save_image_from_response_def one_candidate_def text_part_def image_part_def
      open_write_def)

lemma from_prompt_unfold:
  assumes "calculate_cost self prompt False = Inr c"
  shows "generate_image_from_prompt e prompt output_path (self, w) =
     (let self' = self\<lparr>GeminiImageGenerator.total_cost :=
                      float_add (GeminiImageGenerator.total_cost self) (cost_info.total_cost c)\<rparr>;
          w' = w\<lparr>api_calls := api_calls w @ [(model self, [Prompt prompt])]\<rparr>
      in case save_image_from_response e (generate_content e (model self) [Prompt prompt])
                output_path w' of
           (Inl msg, w'') \<Rightarrow> (Inl (RuntimeError (''Failed to generate image: '' @ msg)), self', w'')
         | (Inr p, w'') \<Rightarrow> (Inr p, self', w''))"
  using assms by (simp add: generate_image_from_prompt_def Let_def)

lemma cost_defined:
  "map_of AVAILABLE_MODELS (model self) = Some M \<Longrightarrow> \<exists>c. calculate_cost self prompt h = Inr c"
  by (simp add: calculate_cost_def Let_def)

lemma startswith_png: "startswith ''image/png'' ''image/''"
  by (simp add: startswith_def)

lemma answering_sel:
  "generate_content (answering r) model_id contents = r"
  "GEMINI_API_KEY (answering r) = Some ''key''"
  by (simp_all add: answering_def)

lemma empty_world_sel:
  "files empty_world = Map.empty" "open_fails empty_world = Map.empty"
  "remove_fails empty_world = Map.empty" "api_calls empty_world = []"
  by (simp_all add: empty_world_def)

lemma save_image_answer:
  "open_fails w output_path = None \<Longrightarrow>
   save_image_from_response (answering r) (Returns (Some image_answer)) output_path w
     = (Inr output_path, w\<lparr>files := (files w)(output_path \<mapsto> replicate 1001 0)\<rparr>)"
  unfolding image_answer_def by (rule save_text_then_image) (simp_all add: startswith_png)

lemma locked_upload_world_sel:
  "files locked_upload_world = [''uploads/u1_cat.png'' \<mapsto> [255, 216, 255]]"
  "open_fails locked_upload_world = Map.empty"
  "remove_fails locked_upload_world = [''uploads/u1_cat.png'' \<mapsto> ''[Errno 13] Permission denied'']"
  "api_calls locked_upload_world = []"
  by (simp_all add: locked_upload_world_def)

lemma with_input_image_answer:
  assumes "calculate_cost self prompt True = Inr c"
    and "files w input_image_path = Some img" and "open_fails w = Map.empty"
  shows "generate_image_with_input (answering (Returns (Some image_answer))) input_image_path
           prompt output_path (self, w) =
         (Inr output_path,
          self\<lparr>GeminiImageGenerator.total_cost :=
                  float_add (GeminiImageGenerator.total_cost self) (cost_info.total_cost c)\<rparr>,
          w\<lparr>api_calls := api_calls w @ [(model self, [ImagePart img ''image/jpeg'', Prompt prompt])],
             files := (files w)(output_path \<mapsto> replicate 1001 0)\<rparr>)"
proof -
  have "load_image (answering (Returns (Some image_answer))) w input_image_path
          = Inr (img, ''image/jpeg'')"
    using assms(2,3) by (simp add: load_image_def path_exists_def open_read_def answering_def)
  then show ?thesis
    using assms(3)
    by (simp add: generate_image_with_input_def assms(1) Let_def answering_sel save_image_answer)
qed

lemma scan_parts_first:
  assumes "list_all passed_over ps" and "startswith m ''image/''" and "1000 < length bs"
  shows "scan_parts dec (ps @ image_part m bs # rest) = Found bs"
  using assms(1)
proof (induction ps)
  case Nil
  with assms(2,3) show ?case by (simp add: image_part_def)
next
  case (Cons p ps)
  then have "scan_parts dec [p] = NotFound" using scan_parts_passed_over [of "[p]" dec] by simp
  with Cons show ?case
    by (auto split: option.splits blob_data.splits if_splits)
qed

lemma scan_candidates_first:
  assumes "list_all candidate_passed_over pre" and "scan_parts dec ps = Found bs"
  shows "scan_candidates dec (pre @ \<lparr>content = Some \<lparr>parts = Some ps\<rparr>\<rparr> # post) = Found bs"
  using assms(1)
proof (induction pre)
  case Nil
  with assms(2) show ?case by simp
next
  case (Cons c pre)
  then obtain ct ps' where "content c = Some ct" "parts ct = Some ps'" "list_all passed_over ps'"
    by (auto simp: candidate_passed_over_def split: option.splits)
  with Cons show ?case by (simp add: scan_parts_passed_over)
qed

lemma save_first_qualifying:
  assumes "list_all candidate_passed_over pre" and "list_all passed_over ps"
    and "startswith m ''image/''" and "1000 < length bs" and "open_fails w output_path = None"
  shows "save_image_from_response e
           (Returns (Some \<lparr>candidates = Some
              (pre @ \<lparr>content = Some \<lparr>parts = Some (ps @ image_part m bs # rest)\<rparr>\<rparr> # post)\<rparr>))
           output_path w = (Inr output_path, w\<lparr>files := (files w)(output_path \<mapsto> bs)\<rparr>)"
proof -
  have "scan_candidates (b64decode e)
          (pre @ \<lparr>content = Some \<lparr>parts = Some (ps @ image_part m bs # rest)\<rparr>\<rparr> # post) = Found bs"
    using assms(1-4) by (intro scan_candidates_first scan_parts_first)
  moreover obtain c cs where
    "pre @ \<lparr>content = Some \<lparr>parts = Some (ps @ image_part m bs # rest)\<rparr>\<rparr> # post = c # cs"
    by (cases pre) auto
  ultimately show ?thesis
    using assms(5)
    by (simp add: save_image_from_response_def open_write_def del: scan_candidates.simps)
qed

text \<open>
  C2, amended: the scan goes through the candidates in order and through the parts of each
  in order, and takes the first qualifying part. When the endpoint answers with a response
  in which an image part, with a MIME type starting with \<^verbatim>\<open>image/\<close> and data of more than
  1000 bytes, comes after nothing but candidates and parts that the scan passes over
  (as in one candidate that holds a text part followed by that image part), and the
  output path can be opened for writing, then \<^verbatim>\<open>generate_image_from_prompt\<close> returns the
  output path and leaves exactly the bytes of that part in the output file, whatever parts
  and candidates follow it; so does \<^verbatim>\<open>generate_image_with_input\<close> when the input image
  exists and can be read.
\<close>

theorem first_qualifying_part_is_saved:
  assumes "map_of AVAILABLE_MODELS (model self) = Some M"
    and "\<forall>contents. generate_content e (model self) contents =
           Returns (Some \<lparr>candidates = Some
             (pre @ \<lparr>content = Some \<lparr>parts = Some (ps @ image_part m bs # rest)\<rparr>\<rparr> # post)\<rparr>)"
    and "list_all candidate_passed_over pre" and "list_all passed_over ps"
    and "startswith m ''image/''" and "1000 < length bs"
    and "open_fails w output_path = None"
  shows "fst (generate_image_from_prompt e prompt output_path (self, w)) = Inr output_path
     \<and> files (snd (snd (generate_image_from_prompt e prompt output_path (self, w))))
         = (files w)(output_path \<mapsto> bs)
     \<and> (files w input_image_path \<noteq> None \<and> open_fails w input_image_path = None \<longrightarrow>
          fst (generate_image_with_input e input_image_path prompt output_path (self, w))
            = Inr output_path
        \<and> files (snd (snd (generate_image_with_input e input_image_path prompt output_path
                              (self, w))))
            = (files w)(output_path \<mapsto> bs))"
proof -
  from assms(1) obtain c where c: "calculate_cost self prompt False = Inr c"
    using cost_defined by blast
  from assms(1) obtain c' where c': "calculate_cost self prompt True = Inr c'"
    using cost_defined by blast
  have save: "\<And>contents w'. open_fails w' = open_fails w \<Longrightarrow>
     save_image_from_response e (generate_content e (model self) contents) output_path w'
       = (Inr output_path, w'\<lparr>files := (files w')(output_path \<mapsto> bs)\<rparr>)"
    using assms(2-7) by (simp add: save_first_qualifying)
  have a: "generate_image_from_prompt e prompt output_path (self, w) =
       (Inr output_path,
        self\<lparr>GeminiImageGenerator.total_cost :=
                float_add (GeminiImageGenerator.total_cost self) (cost_info.total_cost c)\<rparr>,
        w\<lparr>api_calls := api_calls w @ [(model self, [Prompt prompt])],
           files := (files w)(output_path \<mapsto> bs)\<rparr>)"
    by (simp add: generate_image_from_prompt_def c Let_def save)
  have b: "fst (generate_image_with_input e input_image_path prompt output_path (self, w))
            = Inr output_path
        \<and> files (snd (snd (generate_image_with_input e input_image_path prompt output_path
                              (self, w))))
            = (files w)(output_path \<mapsto> bs)"
    if "files w input_image_path \<noteq> None" "open_fails w input_image_path = None"
  proof -
    from that obtain img where "files w input_image_path = Some img" by blast
    with that obtain mime where "load_image e w input_image_path = Inr (img, mime)"
      by (simp add: load_image_def path_exists_def open_read_def Let_def)
    then show ?thesis
      by (simp add: generate_image_with_input_def c' Let_def save)
  qed
  from a b show ?thesis by simp
qed

theorem first_qualifying_part_is_saved_witness:
  "map_of AVAILABLE_MODELS (model example_generator) = Some gemini_25_flash_image
   \<and> (\<forall>contents. generate_content (answering (Returns (Some mixed_answer)))
          (model example_generator) contents = Returns (Some mixed_answer))
   \<and> mixed_answer =
        \<lparr>candidates = Some
          ([] @ \<lparr>content = Some \<lparr>parts = Some
              ([text_part ''Here is your image'', image_part ''image/png'' (replicate 1000 7)]
               @ image_part ''image/png'' (replicate 1001 0)
               # [image_part ''image/jpeg'' (replicate 2000 1)])\<rparr>\<rparr>
           # [\<lparr>content = None\<rparr>])\<rparr>
   \<and> list_all candidate_passed_over []
   \<and> list_all passed_over
         [text_part ''Here is your image'', image_part ''image/png'' (replicate 1000 7)]
   \<and> startswith ''image/png'' ''image/''
   \<and> 1000 < length (replicate 1001 (0::byte))
   \<and> open_fails world_with_input ''out.png'' = None
   \<and> files world_with_input ''in.jpg'' \<noteq> None
   \<and> open_fails world_with_input ''in.jpg'' = None
   \<and> fst (generate_image_from_prompt (answering (Returns (Some mixed_answer)))
          ''A red circle on white background'' ''out.png'' (example_generator, world_with_input))
        = Inr ''out.png''
   \<and> files (snd (snd (generate_image_from_prompt (answering (Returns (Some mixed_answer)))
          ''A red circle on white background'' ''out.png'' (example_generator, world_with_input))))
        = (files world_with_input)(''out.png'' \<mapsto> replicate 1001 0)
   \<and> fst (generate_image_with_input (answering (Returns (Some mixed_answer))) ''in.jpg''
          ''A red circle on white background'' ''out.png'' (example_generator, world_with_input))
        = Inr ''out.png''
   \<and> files (snd (snd (generate_image_with_input (answering (Returns (Some mixed_answer)))
          ''in.jpg'' ''A red circle on white background'' ''out.png''
          (example_generator, world_with_input))))
        = (files world_with_input)(''out.png'' \<mapsto> replicate 1001 0)"
proof -
  have h0: "mixed_answer =
        \<lparr>candidates = Some
          ([] @ \<lparr>content = Some \<lparr>parts = Some
              ([text_part ''Here is your image'', image_part ''image/png'' (replicate 1000 7)]
               @ image_part ''image/png'' (replicate 1001 0)
               # [image_part ''image/jpeg'' (replicate 2000 1)])\<rparr>\<rparr>
           # [\<lparr>content = None\<rparr>])\<rparr>"
    by (simp add: mixed_answer_def)
  have h2: "\<forall>contents. generate_content (answering (Returns (Some mixed_answer)))
          (model example_generator) contents = Returns (Some mixed_answer)"
    by (simp add: answering_sel)
  have h3: "list_all candidate_passed_over []" by simp
  have h4: "list_all passed_over
         [text_part ''Here is your image'', image_part ''image/png'' (replicate 1000 7)]"
    by (simp add: passed_over_def text_part_def image_part_def startswith_png)
  have h6: "1000 < length (replicate 1001 (0::byte))" by simp
  have h7: "open_fails world_with_input ''out.png'' = None" by (simp add: world_with_input_def)
  have h8: "files world_with_input ''in.jpg'' \<noteq> None" by (simp add: world_with_input_def)
  have h9: "open_fails world_with_input ''in.jpg'' = None" by (simp add: world_with_input_def)
  from first_qualifying_part_is_saved [OF map_of_example h2 [unfolded h0] h3 h4 startswith_png
      h6 h7, of "''A red circle on white background''" "''in.jpg''"]
    map_of_example h0 h2 h3 h4 startswith_png h6 h7 h8 h9
  show ?thesis unfolding h0 [symmetric] by blast
qed

text \<open>
  C2, as the specification states it, accepts an image part of at least 1000 bytes. It
  fails at exactly 1000 bytes: the test of the source is \<^verbatim>\<open>len(data) > 1000\<close>, the part is
  passed over, the call fails and nothing is written.
\<close>

theorem image_part_of_1000_bytes_counterexample:
  "fst (generate_image_from_prompt
          (answering (Returns (Some (one_candidate
             [text_part ''Here is your image'', image_part ''image/png'' (replicate 1000 0)]))))
          ''A red circle on white background'' ''out.png'' (example_generator, empty_world))
     = Inl (RuntimeError ''Failed to generate image: No image generated in response'')
   \<and> files (snd (snd (generate_image_from_prompt
          (answering (Returns (Some (one_candidate
             [text_part ''Here is your image'', image_part ''image/png'' (replicate 1000 0)]))))
          ''A red circle on white background'' ''out.png'' (example_generator, empty_world))))
        ''out.png'' = None"
  by (simp add: from_prompt_unfold [OF example_cost] Let_def answering_def
      save_image_from_response_def one_candidate_def text_part_def image_part_def
      startswith_png empty_world_def)

lemma scan_parts_no_qualifying:
  "list_all (\<lambda>p. \<not> qualifies p) ps \<Longrightarrow> scan_parts dec ps \<noteq> Found bs"
  by (induction ps) (auto simp: qualifies_def split: option.splits blob_data.splits if_splits)

lemma scan_candidates_no_qualifying:
  "list_all (\<lambda>p. \<not> qualifies p) (concat (map candidate_parts cs))
     \<Longrightarrow> scan_candidates dec cs \<noteq> Found bs"
proof (induction cs)
  case Nil
  then show ?case by simp
next
  case (Cons c cs)
  then show ?case
    using scan_parts_no_qualifying [of "candidate_parts c" dec]
    by (auto simp: candidate_parts_def split: option.splits scan.splits)
qed

lemma save_no_qualifying:
  assumes "list_all (\<lambda>p. \<not> qualifies p) (response_parts resp)"
  shows "\<exists>msg. save_image_from_response e (Returns (Some resp)) output_path w = (Inl msg, w)"
proof (cases "candidates resp")
  case None
  then show ?thesis by (simp add: save_image_from_response_def)
next
  case (Some cs)
  show ?thesis
  proof (cases cs)
    case Nil
    with Some show ?thesis by (simp add: save_image_from_response_def)
  next
    case (Cons c cs')
    from assms Some have "\<And>bs. scan_candidates (b64decode e) cs \<noteq> Found bs"
      by (simp add: response_parts_def scan_candidates_no_qualifying)
    then show ?thesis
      using Some Cons
      by (cases "scan_candidates (b64decode e) cs")
         (simp_all add: save_image_from_response_def del: scan_candidates.simps)
  qed
qed

lemma small_image_passed_over:
  "list_all candidate_passed_over [\<lparr>content = Some \<lparr>parts = Some [image_part ''image/png'' (replicate 999 0)]\<rparr>\<rparr>]"
  by (simp add: candidate_passed_over_def passed_over_def image_part_def startswith_png)

lemma small_image_not_qualifying:
  "list_all (\<lambda>p. \<not> qualifies p)
     (response_parts (one_candidate [image_part ''image/png'' (replicate 999 0)]))"
  by (simp add: response_parts_def one_candidate_def candidate_parts_def qualifies_def
      image_part_def)

text \<open>
  C6, amended: when no part that the scan can reach in any candidate of the response
  qualifies, \<^verbatim>\<open>generate_image_from_prompt\<close> fails with a \<^verbatim>\<open>RuntimeError\<close> whose text starts
  with \<^verbatim>\<open>Failed to generate image: \<close>, the wrapper that every exception inside the \<^verbatim>\<open>try\<close>
  gets, and leaves the files as they were. When moreover the response has at least one
  candidate and the scan passes over every part of every candidate (each candidate has
  content and parts, each inline blob a MIME type and, under an image type, data), the
  text is \<^verbatim>\<open>Failed to generate image: No image generated in response\<close>.
\<close>

theorem no_image_error:
  assumes "map_of AVAILABLE_MODELS (model self) = Some M"
    and "generate_content e (model self) [Prompt prompt] = Returns (Some resp)"
    and "list_all (\<lambda>p. \<not> qualifies p) (response_parts resp)"
  shows "(\<exists>msg. fst (generate_image_from_prompt e prompt output_path (self, w))
                  = Inl (RuntimeError (''Failed to generate image: '' @ msg)))
     \<and> files (snd (snd (generate_image_from_prompt e prompt output_path (self, w)))) = files w
     \<and> (\<forall>cs. candidates resp = Some cs \<and> cs \<noteq> [] \<and> list_all candidate_passed_over cs \<longrightarrow>
           fst (generate_image_from_prompt e prompt output_path (self, w))
             = Inl (RuntimeError ''Failed to generate image: No image generated in response''))"
proof -
  from assms(1) obtain c where c: "calculate_cost self prompt False = Inr c"
    using cost_defined by blast
  from save_no_qualifying [OF assms(3)] obtain msg where
    "save_image_from_response e (Returns (Some resp)) output_path
       (w\<lparr>api_calls := api_calls w @ [(model self, [Prompt prompt])]\<rparr>)
     = (Inl msg, w\<lparr>api_calls := api_calls w @ [(model self, [Prompt prompt])]\<rparr>)"
    by blast
  then have general:
    "fst (generate_image_from_prompt e prompt output_path (self, w))
       = Inl (RuntimeError (''Failed to generate image: '' @ msg))"
    "files (snd (snd (generate_image_from_prompt e prompt output_path (self, w)))) = files w"
    by (simp_all add: from_prompt_unfold [OF c] Let_def assms(2))
  have "fst (generate_image_from_prompt e prompt output_path (self, w))
          = Inl (RuntimeError ''Failed to generate image: No image generated in response'')"
    if "candidates resp = Some cs" "cs \<noteq> []" "list_all candidate_passed_over cs" for cs
    by (simp add: from_prompt_unfold [OF c] Let_def assms(2) save_no_image [OF that])
  with general show ?thesis by blast
qed

theorem no_image_error_witness:
  "map_of AVAILABLE_MODELS (model example_generator) = Some gemini_25_flash_image
   \<and> generate_content
        (answering (Returns (Some (one_candidate [image_part ''image/png'' (replicate 999 0)]))))
        (model example_generator) [Prompt ''A red circle on white background'']
       = Returns (Some (one_candidate [image_part ''image/png'' (replicate 999 0)]))
   \<and> list_all (\<lambda>p. \<not> qualifies p)
        (response_parts (one_candidate [image_part ''image/png'' (replicate 999 0)]))
   \<and> candidates (one_candidate [image_part ''image/png'' (replicate 999 0)])
       = Some [\<lparr>content = Some \<lparr>parts = Some [image_part ''image/png'' (replicate 999 0)]\<rparr>\<rparr>]
   \<and> list_all candidate_passed_over
         [\<lparr>content = Some \<lparr>parts = Some [image_part ''image/png'' (replicate 999 0)]\<rparr>\<rparr>]
   \<and> fst (generate_image_from_prompt
          (answering (Returns (Some (one_candidate [image_part ''image/png'' (replicate 999 0)]))))
          ''A red circle on white background'' ''out.png'' (example_generator, empty_world))
       = Inl (RuntimeError ''Failed to generate image: No image generated in response'')
   \<and> files (snd (snd (generate_image_from_prompt
          (answering (Returns (Some (one_candidate [image_part ''image/png'' (replicate 999 0)]))))
          ''A red circle on white background'' ''out.png'' (example_generator, empty_world))))
       = files empty_world"
proof -
  have h2: "generate_content
        (answering (Returns (Some (one_candidate [image_part ''image/png'' (replicate 999 0)]))))
        (model example_generator) [Prompt ''A red circle on white background'']
       = Returns (Some (one_candidate [image_part ''image/png'' (replicate 999 0)]))"
    by (simp add: answering_def)
  have h3: "candidates (one_candidate [image_part ''image/png'' (replicate 999 0)])
       = Some [\<lparr>content = Some \<lparr>parts = Some [image_part ''image/png'' (replicate 999 0)]\<rparr>\<rparr>]"
    by (simp add: one_candidate_def)
  have h4: "[\<lparr>content = Some \<lparr>parts = Some [image_part ''image/png'' (replicate 999 (0::byte))]\<rparr>\<rparr>] \<noteq> []"
    by simp
  from no_image_error [OF map_of_example h2 small_image_not_qualifying,
      of "''out.png''" empty_world]
    map_of_example h2 h3 h4 small_image_passed_over small_image_not_qualifying
  show ?thesis by blast
qed

text \<open>
  C6, as the specification states it, has a distinct error for a response without a
  usable image. It fails: the exception is the \<^verbatim>\<open>RuntimeError\<close> that a failure of the
  transport with the same text gets.
\<close>

theorem no_image_error_not_distinct_counterexample:
  "fst (generate_image_from_prompt
          (answering (Returns (Some (one_candidate [image_part ''image/png'' (replicate 999 0)]))))
          ''A red circle on white background'' ''out.png'' (example_generator, empty_world))
     = Inl (RuntimeError ''Failed to generate image: No image generated in response'')
   \<and> fst (generate_image_from_prompt
          (answering (Raises ''No image generated in response''))
          ''A red circle on white background'' ''out.png'' (example_generator, empty_world))
     = Inl (RuntimeError ''Failed to generate image: No image generated in response'')"
  by (simp add: from_prompt_unfold [OF example_cost] Let_def answering_def
      save_image_from_response_def one_candidate_def image_part_def startswith_png)

subsection \<open>The session total\<close>

text \<open>
  C4, as the specification states it, leaves the session total unchanged when a
  generation attempt fails. It fails: the cost is added before the endpoint is called, so
  an attempt that ends in a transport error has raised a fresh total from 0 to the cost
  of the attempt.
\<close>

theorem failed_attempt_is_charged_counterexample:
  "fst (generate_image_from_prompt (answering (Raises ''503 Service Unavailable''))
          ''A red circle on white background'' ''out.png'' (example_generator, empty_world))
     = Inl (RuntimeError ''Failed to generate image: 503 Service Unavailable'')
   \<and> GeminiImageGenerator.total_cost example_generator = 0
   \<and> GeminiImageGenerator.total_cost (fst (snd (generate_image_from_prompt
          (answering (Raises ''503 Service Unavailable''))
          ''A red circle on white background'' ''out.png'' (example_generator, empty_world))))
     = 1580871555598101 / 576460752303423488"
proof -
  have charged: "float_add 0 (1580871555598101 / 576460752303423488)
          = 1580871555598101 / 576460752303423488"
    using float_add_zero_left [of "4722366482869645 / 590295810358705651712"
        "3152519739159347 / 1152921504606846976"] by (simp only: add_32)
  have fresh: "GeminiImageGenerator.total_cost example_generator = 0"
    by (simp add: example_generator_def)
  show ?thesis
    by (simp add: from_prompt_unfold [OF example_cost] Let_def answering_def
        save_image_from_response_def fresh charged)
qed

text \<open>
  C4, amended: the session total is changed by every generation attempt. Each call of
  \<^verbatim>\<open>generate_image_from_prompt\<close> or \<^verbatim>\<open>generate_image_with_input\<close> on a generator whose
  model is in the table adds the \<open>total_cost\<close> of its estimate to the session total,
  whatever the endpoint answers and whether the call succeeds or fails.
\<close>

theorem every_attempt_is_charged:
  assumes "map_of AVAILABLE_MODELS (model self) = Some M"
  shows "(\<exists>c. calculate_cost self prompt False = Inr c
            \<and> GeminiImageGenerator.total_cost
                 (fst (snd (generate_image_from_prompt e prompt output_path (self, w))))
               = float_add (GeminiImageGenerator.total_cost self) (cost_info.total_cost c))
       \<and> (\<exists>c. calculate_cost self prompt True = Inr c
            \<and> GeminiImageGenerator.total_cost
                 (fst (snd (generate_image_with_input e input_image_path prompt output_path
                              (self, w))))
               = float_add (GeminiImageGenerator.total_cost self) (cost_info.total_cost c))"
proof -
  from assms obtain c where c: "calculate_cost self prompt False = Inr c"
    using cost_defined by blast
  from assms obtain c' where c': "calculate_cost self prompt True = Inr c'"
    using cost_defined by blast
  have "GeminiImageGenerator.total_cost
          (fst (snd (generate_image_from_prompt e prompt output_path (self, w))))
        = float_add (GeminiImageGenerator.total_cost self) (cost_info.total_cost c)"
    by (simp add: from_prompt_unfold [OF c] Let_def split: prod.splits sum.splits)
  moreover have "GeminiImageGenerator.total_cost
          (fst (snd (generate_image_with_input e input_image_path prompt output_path (self, w))))
        = float_add (GeminiImageGenerator.total_cost self) (cost_info.total_cost c')"
    by (simp add: generate_image_with_input_def c' Let_def split: prod.splits sum.splits)
  ultimately show ?thesis using c c' by simp
qed

theorem every_attempt_is_charged_witness:
  "map_of AVAILABLE_MODELS (model example_generator) = Some gemini_25_flash_image
   \<and> (\<exists>c. calculate_cost example_generator ''A red circle on white background'' False = Inr c
         \<and> GeminiImageGenerator.total_cost
              (fst (snd (generate_image_from_prompt (answering (Raises ''503 Service Unavailable''))
                 ''A red circle on white background'' ''out.png'' (example_generator, empty_world))))
            = float_add (GeminiImageGenerator.total_cost example_generator) (cost_info.total_cost c))
   \<and> (\<exists>c. calculate_cost example_generator ''A red circle on white background'' True = Inr c
         \<and> GeminiImageGenerator.total_cost
              (fst (snd (generate_image_with_input (answering (Raises ''503 Service Unavailable''))
                 ''in.jpg'' ''A red circle on white background'' ''out.png''
                 (example_generator, empty_world))))
            = float_add (GeminiImageGenerator.total_cost example_generator) (cost_info.total_cost c))"
  using every_attempt_is_charged [OF map_of_example] map_of_example by blast

lemma init_example:
  "GeminiImageGenerator_init (answering r) (Some ''key'') ''gemini-2.5-flash-image-preview''
     = Inr example_generator"
  by (simp add: GeminiImageGenerator_init_def AVAILABLE_MODELS_def example_generator_def)

lemma strip_example:
  "strip ''A red circle on white background'' = ''A red circle on white background''"
  by (simp add: strip_def py_isspace_def)

lemma double_charge:
  "float_add (1580871555598101 / 576460752303423488) (1580871555598101 / 576460752303423488)
     = 1580871555598101 / 288230376151711744"
  using fl_pos [of "1580871555598101 / 576460752303423488 + 1580871555598101 / 576460752303423488" "- 8"]
  by (simp add: float_add_def round_half_even_def power_int_minus)

lemma app_reset_cost_zero:
  "app_reset_cost (Some g) = (ResetDone 0, Some (g\<lparr>GeminiImageGenerator.total_cost := 0\<rparr>))"
  by (simp add: app_reset_cost_def)

text \<open>
  C3: after N successful generations the session total is the sum of the N totals
  charged. The endpoint \<^verbatim>\<open>/api/generate\<close> of \<^verbatim>\<open>app.py\<close> breaks it: in a fresh session, one
  successful generation for the prompt \<^verbatim>\<open>A red circle on white background\<close> answers with
  a \<open>cost_info\<close> whose total is 0.002742375 and with a session total of twice that,
  because the handler adds the cost that \<^verbatim>\<open>generate_image_from_prompt\<close> has already added.
\<close>

theorem app_generate_image_charges_twice:
  "fst (app_generate_image (answering (Returns (Some image_answer))) ''/tmp/tmpa1b2c3.png''
          \<lparr>json_prompt = Some ''A red circle on white background'', json_model = None\<rparr>
          (None, empty_world))
     = Generated (replicate 1001 0)
         \<lparr>input_text_cost = 4722366482869645 / 590295810358705651712,
          input_image_cost = 0,
          output_image_cost = 3152519739159347 / 1152921504606846976,
          total_cost = 1580871555598101 / 576460752303423488,
          input_chars = 32\<rparr>
         (1580871555598101 / 288230376151711744)"
proof -
  have charged: "float_add 0 (1580871555598101 / 576460752303423488)
          = 1580871555598101 / 576460752303423488"
    using float_add_zero_left [of "4722366482869645 / 590295810358705651712"
        "3152519739159347 / 1152921504606846976"] by (simp only: add_32)
  have fresh: "GeminiImageGenerator.total_cost example_generator = 0"
    "model example_generator = ''gemini-2.5-flash-image-preview''"
    by (simp_all add: example_generator_def)
  have init: "init_generator (answering (Returns (Some image_answer))) None
                = (True, Some example_generator)"
    by (simp add: init_generator_def init_example answering_sel)
  have gen: "generate_image_from_prompt (answering (Returns (Some image_answer)))
               ''A red circle on white background'' ''/tmp/tmpa1b2c3.png''
               (example_generator, empty_world\<lparr>files := [''/tmp/tmpa1b2c3.png'' \<mapsto> []]\<rparr>)
             = (Inr ''/tmp/tmpa1b2c3.png'',
                example_generator\<lparr>GeminiImageGenerator.total_cost :=
                   1580871555598101 / 576460752303423488\<rparr>,
                empty_world\<lparr>files := [''/tmp/tmpa1b2c3.png'' \<mapsto> replicate 1001 0],
                   api_calls := [(''gemini-2.5-flash-image-preview'',
                                  [Prompt ''A red circle on white background''])]\<rparr>)"
    by (simp add: from_prompt_unfold [OF example_cost] Let_def fresh charged answering_sel
        save_image_answer empty_world_sel)
  show ?thesis
    by (simp add: app_generate_image_def init strip_example fresh example_cost open_write_def
        gen open_read_def os_remove_def double_charge empty_world_sel)
qed

subsection \<open>Tasks\<close>

text \<open>
  C5: a task that has reached \<^verbatim>\<open>completed\<close> or \<^verbatim>\<open>error\<close> keeps that status. The
  background thread breaks it: the removal of the uploaded file comes after the
  assignment of \<^verbatim>\<open>completed\<close> and inside the same \<^verbatim>\<open>try\<close>, so when the removal raises, the
  \<^verbatim>\<open>except\<close> clause turns the completed task into an \<^verbatim>\<open>error\<close> task. The statuses of the
  task object, from its creation on, for an upload that cannot be removed:
\<close>

theorem completed_task_becomes_error:
  "map status (fst (generate_image_background (answering (Returns (Some image_answer)))
          (GenerationTask_init ''t1'') ''key'' ''gemini-2.5-flash-image-preview''
          ''A red circle on white background'' (Some ''uploads/u1_cat.png'')
          locked_upload_world))
     = [''pending'',
        ''initializing'', ''initializing'', ''initializing'',
        ''generating'', ''generating'', ''generating'', ''generating'',
        ''completed'', ''completed'', ''completed'', ''completed'',
        ''error'', ''error'', ''error'']"
proof -
  obtain c where c: "calculate_cost example_generator ''A red circle on white background'' True
                       = Inr c"
    using cost_defined [OF map_of_example] by blast
  have gen: "generate_image_with_input (answering (Returns (Some image_answer)))
      ''uploads/u1_cat.png'' ''A red circle on white background'' ''outputs/generated_t1.png''
      (example_generator, locked_upload_world) =
         (Inr ''outputs/generated_t1.png'',
          example_generator\<lparr>GeminiImageGenerator.total_cost :=
             float_add (GeminiImageGenerator.total_cost example_generator)
               (cost_info.total_cost c)\<rparr>,
          locked_upload_world\<lparr>api_calls := api_calls locked_upload_world @
               [(model example_generator,
                 [ImagePart [255, 216, 255] ''image/jpeg'',
                  Prompt ''A red circle on white background''])],
             files := (files locked_upload_world)
               (''outputs/generated_t1.png'' \<mapsto> replicate 1001 0)\<rparr>)"
    by (rule with_input_image_answer [OF c]) (simp_all add: locked_upload_world_sel)
  have task: "task_id (GenerationTask_init ''t1'') = ''t1''"
    "status (GenerationTask_init ''t1'') = ''pending''"
    by (simp_all add: GenerationTask_init_def)
  show ?thesis
    by (simp add: generate_image_background_def init_example Let_def assign_def task
        path_exists_def locked_upload_world_sel gen remove_upload_def os_remove_def
        background_except_def)
qed

text \<open>
  The statuses of a fresh task in any run of the thread are one of four sequences: the
  constructor fails, the generation fails, all succeeds, or the removal of the upload
  fails after success. Only the last one leaves a terminal status, and it goes to the
  other terminal status; no run goes back to a status that is not terminal.
\<close>

lemma background_except_statuses:
  "map status (fst (background_except msg input_file_path (tr, w)))
     = map status tr @ [''error'', ''error'', ''error'']"
  by (cases "remove_upload w input_file_path")
     (simp_all add: background_except_def Let_def assign_def)

lemma after_generation_statuses:
  assumes "map status tr = ss"
  shows "map status (fst (case r of
           Inl err \<Rightarrow> background_except (exn_str err) input_file_path (tr, w)
         | Inr p \<Rightarrow>
             let tr = assign (\<lambda>t. t\<lparr>status := ''completed''\<rparr>) tr;
                 tr = assign (\<lambda>t. t\<lparr>progress := 100\<rparr>) tr;
                 tr = assign (\<lambda>t. t\<lparr>message := ''Image generated successfully!''\<rparr>) tr;
                 tr = assign (\<lambda>t. t\<lparr>result_path := Some p\<rparr>) tr
             in case remove_upload w input_file_path of
                  Inl msg \<Rightarrow> background_except msg input_file_path (tr, w)
                | Inr w \<Rightarrow> (tr, w)))
     \<in> {ss @ [''error'', ''error'', ''error''],
          ss @ [''completed'', ''completed'', ''completed'', ''completed''],
          ss @ [''completed'', ''completed'', ''completed'', ''completed'',
                ''error'', ''error'', ''error'']}"
proof (cases r)
  case (Inl err)
  with assms show ?thesis by (simp add: background_except_statuses)
next
  case (Inr p)
  with assms show ?thesis
    by (cases "remove_upload w input_file_path")
       (simp_all add: Let_def assign_def background_except_statuses)
qed

lemma status_traces:
  "map status (fst (generate_image_background e (GenerationTask_init tid) api_key model_id prompt
                      input_file_path w))
     \<in> {[''pending'', ''initializing'', ''initializing'', ''initializing'',
           ''error'', ''error'', ''error''],
          [''pending'', ''initializing'', ''initializing'', ''initializing'',
           ''generating'', ''generating'', ''generating'', ''generating'',
           ''error'', ''error'', ''error''],
          [''pending'', ''initializing'', ''initializing'', ''initializing'',
           ''generating'', ''generating'', ''generating'', ''generating'',
           ''completed'', ''completed'', ''completed'', ''completed''],
          [''pending'', ''initializing'', ''initializing'', ''initializing'',
           ''generating'', ''generating'', ''generating'', ''generating'',
           ''completed'', ''completed'', ''completed'', ''completed'',
           ''error'', ''error'', ''error'']}"
proof (cases "GeminiImageGenerator_init e (Some api_key) model_id")
  case (Inl err)
  then show ?thesis
    by (simp add: generate_image_background_def Let_def assign_def background_except_statuses
        GenerationTask_init_def)
next
  case (Inr g)
  let ?out = "''outputs/'' @ (''generated_'' @ tid @ ''.png'')"
  let ?ss = "[''pending'', ''initializing'', ''initializing'', ''initializing'',
              ''generating'', ''generating'', ''generating'', ''generating'']"
  have tid: "task_id (GenerationTask_init tid) = tid"
    and pending: "status (GenerationTask_init tid) = ''pending''"
    by (simp_all add: GenerationTask_init_def)
  define tr6 where "tr6 =
       assign (\<lambda>t. t\<lparr>message := ''Generating image...''\<rparr>)
         (assign (\<lambda>t. t\<lparr>progress := 30\<rparr>)
           (assign (\<lambda>t. t\<lparr>status := ''generating''\<rparr>)
             (assign (\<lambda>t. t\<lparr>message := ''Initializing generator...''\<rparr>)
               (assign (\<lambda>t. t\<lparr>progress := 10\<rparr>)
                 (assign (\<lambda>t. t\<lparr>status := ''initializing''\<rparr>)
                   [GenerationTask_init tid])))))"
  define tail where "tail ifp r tr w' =
      (case r of
         Inl err \<Rightarrow> background_except (exn_str err) ifp (tr, w')
       | Inr p \<Rightarrow>
           let tr = assign (\<lambda>t. t\<lparr>status := ''completed''\<rparr>) tr;
               tr = assign (\<lambda>t. t\<lparr>progress := 100\<rparr>) tr;
               tr = assign (\<lambda>t. t\<lparr>message := ''Image generated successfully!''\<rparr>) tr;
               tr = assign (\<lambda>t. t\<lparr>result_path := Some p\<rparr>) tr
           in case remove_upload w' ifp of
                Inl msg \<Rightarrow> background_except msg ifp (tr, w')
              | Inr w \<Rightarrow> (tr, w))" for ifp and r :: "exn + string" and tr w'
  have statuses: "map status (assign (\<lambda>t. t\<lparr>message := m\<rparr>) tr6) = ?ss" for m
    by (simp add: tr6_def assign_def pending)
  have finish: "map status (fst (tail ifp r (assign (\<lambda>t. t\<lparr>message := m\<rparr>) tr6) w'))
     \<in> {[''pending'', ''initializing'', ''initializing'', ''initializing'',
           ''error'', ''error'', ''error''],
          [''pending'', ''initializing'', ''initializing'', ''initializing'',
           ''generating'', ''generating'', ''generating'', ''generating'',
           ''error'', ''error'', ''error''],
          [''pending'', ''initializing'', ''initializing'', ''initializing'',
           ''generating'', ''generating'', ''generating'', ''generating'',
           ''completed'', ''completed'', ''completed'', ''completed''],
          [''pending'', ''initializing'', ''initializing'', ''initializing'',
           ''generating'', ''generating'', ''generating'', ''generating'',
           ''completed'', ''completed'', ''completed'', ''completed'',
           ''error'', ''error'', ''error'']}" for ifp r m w'
    using after_generation_statuses [OF statuses [of m], where r = r
        and input_file_path = ifp and w = w']
    unfolding tail_def by simp
  show ?thesis
  proof (cases input_file_path)
    case None
    obtain r g' w' where gen: "generate_image_from_prompt e prompt ?out (g, w) = (r, g', w')"
      by (cases "generate_image_from_prompt e prompt ?out (g, w)")
    then have "generate_image_background e (GenerationTask_init tid) api_key model_id prompt
          None w = tail None r (assign (\<lambda>t. t\<lparr>message := ''Generating image from prompt...''\<rparr>) tr6) w'"
      by (simp add: generate_image_background_def Inr Let_def tid tr6_def tail_def)
    with finish show ?thesis unfolding None by simp
  next
    case (Some p)
    show ?thesis
    proof (cases "p \<noteq> [] \<and> path_exists w p")
      case True
      obtain r g' w' where gen: "generate_image_with_input e p prompt ?out (g, w) = (r, g', w')"
        by (cases "generate_image_with_input e p prompt ?out (g, w)")
      with True have "generate_image_background e (GenerationTask_init tid) api_key model_id
          prompt (Some p) w
          = tail (Some p) r (assign (\<lambda>t. t\<lparr>message := ''Generating image with input...''\<rparr>) tr6) w'"
        by (simp add: generate_image_background_def Inr Let_def tid tr6_def tail_def)
      with finish show ?thesis unfolding Some by simp
    next
      case False
      obtain r g' w' where gen: "generate_image_from_prompt e prompt ?out (g, w) = (r, g', w')"
        by (cases "generate_image_from_prompt e prompt ?out (g, w)")
      from gen have "generate_image_background e (GenerationTask_init tid) api_key model_id
          prompt (Some p) w
          = tail (Some p) r (assign (\<lambda>t. t\<lparr>message := ''Generating image from prompt...''\<rparr>) tr6) w'"
        by (cases "p = []")
           (use False in \<open>simp_all add: generate_image_background_def Inr Let_def tid tr6_def
              tail_def\<close>)
      with finish show ?thesis unfolding Some by simp
    qed
  qed
qed

text \<open>
  C7: the sweep evicts every task that is older than one hour. The source breaks it: a
  task object never gets the attribute \<^verbatim>\<open>created_at\<close> that the sweep tests, so a task
  that is still pending stays in the registry whatever the clock says.
\<close>

theorem sweep_keeps_old_pending_task:
  "cleanup_old_tasks current_time ([(tid, GenerationTask_init tid)], w)
     = (None, [(tid, GenerationTask_init tid)], w)"
  by (simp add: cleanup_old_tasks_def GenerationTask_init_def)









end
